theory Spec2Isabelle
  imports Complex_Main
begin

section \<open>Data model\<close>

text \<open>
  The tables of the Prisma schema that the cart, checkout, catalog and logout handlers
  read or write. Every table is a list of rows in insertion order. A JavaScript number
  (a \<open>Float\<close> column, a JSON number) is the real it denotes; the arithmetic on them is
  that of IEEE 754 doubles, defined below. \<open>Int\<close> columns are integers. Timestamps, the
  password column and the surrogate keys of \<open>OrderItem\<close>, \<open>InvalidToken\<close> and
  \<open>ProductReview\<close>, which no handler reads, are left out.
\<close>

datatype Role = ADMIN | CUSTOMER

datatype PaymentStatus = PENDING | PAID | FAILED

record User =
  u_id :: string
  u_name :: string
  u_email :: string
  u_role :: Role

record InvalidToken =
  it_token :: string
  it_userId :: string

record Product =
  p_id :: string
  p_name :: string
  p_description :: string
  p_price :: real
  p_stock :: int
  p_imageUrl :: string
  p_brandId :: string
  p_categoryId :: string

record ProductReview =
  r_productId :: string

record CartItem =
  c_id :: string
  c_userId :: string
  c_productId :: string
  c_quantity :: int

record Order =
  o_id :: string
  o_userId :: string
  o_totalAmount :: real
  o_paymentStatus :: PaymentStatus
  o_paymentMethod :: string

record OrderItem =
  oi_orderId :: string
  oi_productId :: string
  oi_price :: real
  oi_quantity :: int

record db =
  users :: "User list"
  invalidTokens :: "InvalidToken list"
  brands :: "string list"
  categories :: "string list"
  products :: "Product list"
  reviews :: "ProductReview list"
  cartItems :: "CartItem list"
  orders :: "Order list"
  orderItems :: "OrderItem list"

section \<open>JavaScript values and responses\<close>

datatype jsv =
    JUndefined
  | JNull
  | JBool bool
  | JNum real
  | JStr string
  | JObject "(string \<times> jsv) list"
  | JArray "jsv list"

fun truthy :: "jsv \<Rightarrow> bool" where
  "truthy JUndefined = False"
| "truthy JNull = False"
| "truthy (JBool b) = b"
| "truthy (JNum r) = (r \<noteq> 0)"
| "truthy (JStr s) = (s \<noteq> [])"
| "truthy (JObject members) = True"
| "truthy (JArray elements) = True"

definition isInteger :: "real \<Rightarrow> bool" where
  "isInteger r = (r = of_int \<lfloor>r\<rfloor>)"

subsection \<open>Double arithmetic\<close>

text \<open>
  \<open>+\<close> and \<open>*\<close> on JavaScript numbers: the exact result rounded to the nearest
  double, ties to the even mantissa (53 bits, exponents down to the subnormals at
  \<open>2^-1074\<close>). \<open>None\<close> stands for a result that is not finite. The two zeros are not
  told apart.
\<close>

function bitLength :: "int \<Rightarrow> int" where
  "bitLength n = (if n \<le> 0 then 0 else 1 + bitLength (n div 2))"
  by auto
termination
  by (relation "measure nat") auto

declare bitLength.simps [simp del]

definition pow2 :: "int \<Rightarrow> real" where
  "pow2 k = (if 0 \<le> k then 2 ^ nat k else 1 / 2 ^ nat (- k))"

text \<open>For \<open>a > 0\<close>, the exponent \<open>k\<close> with \<open>2^k \<le> a < 2^(k+1)\<close>.\<close>

definition ilog2 :: "real \<Rightarrow> int" where
  "ilog2 a = (if 1 \<le> a then bitLength \<lfloor>a\<rfloor> - 1 else - bitLength (\<lceil>1 / a\<rceil> - 1))"

definition roundHalfEven :: "real \<Rightarrow> int" where
  "roundHalfEven m =
     (let n = \<lfloor>m\<rfloor>; f = m - of_int n
      in if f < 1 / 2 then n else if 1 / 2 < f then n + 1 else if even n then n else n + 1)"

text \<open>The largest double, \<open>(2^53 - 1) * 2^971\<close>.\<close>

definition maxDouble :: real where
  "maxDouble = 179769313486231570814527423731704356798070567525844996598917476803157260780028538760589558632766878171540458953514382464234321326889464182768467546703537516986049910576551282076245490090389328944075868508455133942304583236903222948165808559332123348274797826204144723168738177180919299881250404026184124858368"

definition toDouble :: "real \<Rightarrow> real option" where
  "toDouble x =
     (if x = 0 then Some 0
      else (let a = \<bar>x\<bar>; u = max (ilog2 a - 52) (- 1074);
                r = of_int (roundHalfEven (a / pow2 u)) * pow2 u
            in if maxDouble < r then None else Some (if x < 0 then - r else r)))"

definition ieee_add :: "real \<Rightarrow> real \<Rightarrow> real option" where
  "ieee_add x y = toDouble (x + y)"

definition ieee_mul :: "real \<Rightarrow> real \<Rightarrow> real option" where
  "ieee_mul x y = toDouble (x * y)"

text \<open>The range of an \<open>Int\<close> column (Postgres \<open>int4\<close>); a value outside it is refused.\<close>

definition int4 :: "int \<Rightarrow> bool" where
  "int4 n = (- 2147483648 \<le> n \<and> n \<le> 2147483647)"

subsection \<open>Request bodies and the environment\<close>

text \<open>
  The JSON body of the product routes, typed \<open>ProductCreateInput\<close> or
  \<open>ProductUpdateInput\<close> by a cast that checks nothing at run time: the seven fields
  the handlers name are whatever JSON the caller sent, \<open>JUndefined\<close> when absent, and
  \<open>in_rest\<close> holds every other key of the body.
\<close>

record ProductInput =
  in_name :: jsv
  in_description :: jsv
  in_price :: jsv
  in_stock :: jsv
  in_imageUrl :: jsv
  in_brandId :: jsv
  in_categoryId :: jsv
  in_rest :: "(string \<times> jsv) list"

text \<open>
  Library functions the handlers call and the repository does not define:
  \<^item> \<open>jwt.verify\<close> of jsonwebtoken (the \<open>userId\<close> of the payload, \<open>None\<close> when it
    throws) and \<open>jwtVerify\<close> of jose (whether it accepts the token);
  \<^item> the uuid test of the zod schema;
  \<^item> JavaScript's \<open>parseInt\<close> and \<open>parseFloat\<close> (\<open>None\<close> for \<open>NaN\<close>);
  \<^item> \<open>intColumn\<close>: what the query engine writes to an \<open>Int\<close> column when it is
    handed a number that is not an integer (the truncated value, or \<open>None\<close> when it
    refuses the write);
  \<^item> \<open>prismaNested\<close>: what \<open>prisma.product.update\<close> does with a \<open>data\<close> object
    that has keys beyond the seven columns (nested writes through the relations of
    \<open>Product\<close>, other scalar columns): the row it returns and the new database, or
    \<open>None\<close> when it throws.
\<close>

record env =
  jwt_verify :: "string \<Rightarrow> string option"
  jwtVerify :: "string \<Rightarrow> bool"
  isUuid :: "string \<Rightarrow> bool"
  parseInt :: "string \<Rightarrow> int option"
  parseFloat :: "string \<Rightarrow> real option"
  intColumn :: "real \<Rightarrow> int option"
  prismaNested :: "db \<Rightarrow> string \<Rightarrow> ProductInput \<Rightarrow> (Product \<times> db) option"

datatype body =
    Error string
  | Message string
  | InvalidInput
  | StockError string int
  | ExceedsError string int int
  | InsufficientStock string string string int int
  | CartItemBody CartItem string real
  | CartMessage string CartItem
  | CheckoutBody string string real
  | ProductBody Product
  | DeleteRefused string string nat
  | DeleteInfo string string bool

type_synonym response = "nat \<times> body"

definition unauthorizedResponse :: response where
  "unauthorizedResponse = (401, Error ''Unauthorized'')"

section \<open>src/lib/middleware.ts\<close>

fun split_on :: "char \<Rightarrow> string \<Rightarrow> string list" where
  "split_on c [] = [[]]"
| "split_on c (x # xs) =
     (if x = c then [] # split_on c xs
      else (case split_on c xs of [] \<Rightarrow> [[x]] | w # ws \<Rightarrow> (x # w) # ws))"

definition startsWith :: "string \<Rightarrow> string \<Rightarrow> bool" where
  "startsWith s p = (take (length p) s = p)"

text \<open>\<open>authHeader.split(" ")[1]\<close>; an index out of range reads \<open>undefined\<close>.\<close>

definition bearer_token :: "string \<Rightarrow> string option" where
  "bearer_token h = (case split_on CHR '' '' h of _ # t # _ \<Rightarrow> Some t | _ \<Rightarrow> None)"

text \<open>
  \<open>auth\<close>: the \<open>Authorization\<close> header, the revocation lookup, \<open>jwt.verify\<close>, the
  user lookup. Whatever throws inside is caught and gives \<open>null\<close>.
\<close>

definition auth :: "env \<Rightarrow> db \<Rightarrow> string option \<Rightarrow> User option" where
  "auth e d hdr =
     (case hdr of
        None \<Rightarrow> None
      | Some authHeader \<Rightarrow>
          if authHeader = [] \<or> \<not> startsWith authHeader ''Bearer '' then None
          else (case bearer_token authHeader of
                  None \<Rightarrow> None
                | Some token \<Rightarrow>
                    (case find (\<lambda>t. it_token t = token) (invalidTokens d) of
                       Some invalidToken \<Rightarrow> None
                     | None \<Rightarrow>
                         (case jwt_verify e token of
                            None \<Rightarrow> None
                          | Some userId \<Rightarrow> find (\<lambda>u. u_id u = userId) (users d)))))"

definition authAdminOnly :: "env \<Rightarrow> db \<Rightarrow> string option \<Rightarrow> bool" where
  "authAdminOnly e d hdr =
     (case auth e d hdr of None \<Rightarrow> False | Some user \<Rightarrow> u_role user = ADMIN)"

definition getCurrentUser :: "env \<Rightarrow> db \<Rightarrow> string option \<Rightarrow> User option" where
  "getCurrentUser e d hdr = auth e d hdr"

section \<open>Logout\<close>

text \<open>
  \<open>POST\<close> of the logout route: the token is stored in \<open>InvalidToken\<close>, whose
  \<open>token\<close> column is unique, so a second insert of the same token throws.
\<close>

definition logout_POST :: "env \<Rightarrow> db \<Rightarrow> string option \<Rightarrow> response \<times> db" where
  "logout_POST e d hdr =
     (case getCurrentUser e d hdr of
        None \<Rightarrow> ((200, Message ''Already logged out''), d)
      | Some user \<Rightarrow>
          (case hdr of
             None \<Rightarrow> ((200, Message ''Logged out successfully''), d)
           | Some authHeader \<Rightarrow>
               if authHeader \<noteq> [] \<and> startsWith authHeader ''Bearer '' then
                 (case bearer_token authHeader of
                    None \<Rightarrow> ((500, Error ''Failed to logout''), d)
                  | Some token \<Rightarrow>
                      if find (\<lambda>t. it_token t = token) (invalidTokens d) \<noteq> None
                      then ((500, Error ''Failed to logout''), d)
                      else ((200, Message ''Logged out successfully''),
                            d\<lparr>invalidTokens := invalidTokens d @
                               [\<lparr>it_token = token, it_userId = u_id user\<rparr>]\<rparr>))
               else ((200, Message ''Logged out successfully''), d)))"

section \<open>Cart\<close>

definition findProduct :: "db \<Rightarrow> string \<Rightarrow> Product option" where
  "findProduct d pid = find (\<lambda>p. p_id p = pid) (products d)"

text \<open>The zod schema: \<open>productId\<close> a uuid string, \<open>quantity\<close> an integer number, at least 1.\<close>

definition cartInputSchema :: "env \<Rightarrow> jsv \<Rightarrow> jsv \<Rightarrow> (string \<times> int) option" where
  "cartInputSchema e productId quantity =
     (case productId of
        JStr s \<Rightarrow>
          (case quantity of
             JNum r \<Rightarrow> if isUuid e s \<and> isInteger r \<and> 1 \<le> r then Some (s, \<lfloor>r\<rfloor>) else None
           | _ \<Rightarrow> None)
      | _ \<Rightarrow> None)"

text \<open>
  \<open>POST /api/cart\<close>. \<open>newId\<close> is the uuid the database gives the new row; a
  primary key already present makes the insert throw.
\<close>

definition cart_POST ::
  "env \<Rightarrow> db \<Rightarrow> string option \<Rightarrow> jsv \<Rightarrow> jsv \<Rightarrow> string \<Rightarrow> response \<times> db" where
  "cart_POST e d hdr productId quantity newId =
     (case getCurrentUser e d hdr of
        None \<Rightarrow> (unauthorizedResponse, d)
      | Some user \<Rightarrow>
          if u_role user \<noteq> CUSTOMER
          then ((403, Error ''Access denied. Only customers can add to cart.''), d)
          else (case cartInputSchema e productId quantity of
                  None \<Rightarrow> ((400, InvalidInput), d)
                | Some (pid, q) \<Rightarrow>
                    (case findProduct d pid of
                       None \<Rightarrow> ((404, Error ''Product not found''), d)
                     | Some product \<Rightarrow>
                         if p_stock product < q
                         then ((400, StockError ''Not enough stock available'' (p_stock product)), d)
                         else (case find (\<lambda>c. c_userId c = u_id user \<and> c_productId c = pid)
                                      (cartItems d) of
                                 Some existingCartItem \<Rightarrow>
                                   (let newTotalQuantity = c_quantity existingCartItem + q in
                                    if newTotalQuantity > p_stock product
                                    then ((400, ExceedsError
                                            ''Cannot add this quantity. It exceeds available stock.''
                                            (c_quantity existingCartItem) (p_stock product)), d)
                                    else ((200, CartMessage ''Cart item updated''
                                            (existingCartItem\<lparr>c_quantity := newTotalQuantity\<rparr>)),
                                          d\<lparr>cartItems :=
                                              map (\<lambda>c. if c_id c = c_id existingCartItem
                                                        then c\<lparr>c_quantity := newTotalQuantity\<rparr>
                                                        else c) (cartItems d)\<rparr>))
                               | None \<Rightarrow>
                                   if find (\<lambda>c. c_id c = newId) (cartItems d) \<noteq> None
                                   then ((500, Error ''Failed to add item to cart''), d)
                                   else (let newCartItem =
                                               \<lparr>c_id = newId, c_userId = u_id user,
                                                c_productId = pid, c_quantity = q\<rparr> in
                                         ((201, CartMessage ''Item added to cart'' newCartItem),
                                          d\<lparr>cartItems := cartItems d @ [newCartItem]\<rparr>))))))"

text \<open>
  \<open>PUT /api/cart/:id\<close>. The body's \<open>userId\<close> and \<open>quantity\<close> are whatever JSON
  the caller sent. The row is read with its product. The handler has no test that the
  quantity is an integer: what is written for one that is not is up to the query engine.
\<close>

definition cart_PUT ::
  "env \<Rightarrow> db \<Rightarrow> string option \<Rightarrow> string \<Rightarrow> jsv \<Rightarrow> jsv \<Rightarrow> response \<times> db" where
  "cart_PUT e d hdr cartItemId quantity userId =
     (case getCurrentUser e d hdr of
        None \<Rightarrow> (unauthorizedResponse, d)
      | Some user \<Rightarrow>
          if cartItemId = [] then ((400, Error ''Cart item ID is required''), d)
          else if \<not> truthy userId then ((400, Error ''User ID is required''), d)
          else (case quantity of
                  JNum q \<Rightarrow>
                    if q = 0 \<or> q < 1
                    then ((400, Error ''Quantity must be a positive number''), d)
                    else (case find (\<lambda>c. c_id c = cartItemId) (cartItems d) of
                            None \<Rightarrow> ((404, Error ''Cart item not found''), d)
                          | Some cartItem \<Rightarrow>
                              (case findProduct d (c_productId cartItem) of
                                 None \<Rightarrow> ((500, Error ''Failed to update cart item''), d)
                               | Some product \<Rightarrow>
                                   if JStr (c_userId cartItem) \<noteq> userId
                                   then ((403, Error
                                     ''Access denied: This cart item does not belong to the specified user''), d)
                                   else if of_int (p_stock product) < q
                                   then ((400, StockError ''Not enough stock available''
                                            (p_stock product)), d)
                                   else (case (if isInteger q then Some \<lfloor>q\<rfloor>
                                               else intColumn e q) of
                                           None \<Rightarrow> ((500, Error ''Failed to update cart item''), d)
                                         | Some n \<Rightarrow>
                                             ((200, CartItemBody (cartItem\<lparr>c_quantity := n\<rparr>)
                                                      (p_name product) (p_price product)),
                                              d\<lparr>cartItems :=
                                                  map (\<lambda>c. if c_id c = cartItemId
                                                            then c\<lparr>c_quantity := n\<rparr> else c)
                                                      (cartItems d)\<rparr>))))
                | _ \<Rightarrow> ((400, Error ''Quantity must be a positive number''), d)))"

text \<open>\<open>DELETE /api/cart/:id\<close>; \<open>userId\<close> is the query parameter (\<open>None\<close> when absent).\<close>

definition cart_DELETE ::
  "env \<Rightarrow> db \<Rightarrow> string option \<Rightarrow> string \<Rightarrow> string option \<Rightarrow> response \<times> db" where
  "cart_DELETE e d hdr cartItemId userId =
     (case getCurrentUser e d hdr of
        None \<Rightarrow> (unauthorizedResponse, d)
      | Some user \<Rightarrow>
          if cartItemId = [] then ((400, Error ''Cart item ID is required''), d)
          else if userId = None \<or> userId = Some [] then ((400, Error ''User ID is required''), d)
          else (case find (\<lambda>c. c_id c = cartItemId) (cartItems d) of
                  None \<Rightarrow> ((404, Error ''Cart item not found''), d)
                | Some cartItem \<Rightarrow>
                    if Some (c_userId cartItem) \<noteq> userId
                    then ((403, Error
                      ''Access denied: This cart item does not belong to the specified user''), d)
                    else ((200, Message ''Cart item removed successfully''),
                          d\<lparr>cartItems := filter (\<lambda>c. c_id c \<noteq> cartItemId) (cartItems d)\<rparr>)))"

section \<open>Checkout\<close>

text \<open>
  \<open>findMany\<close> with \<open>include: { product: true }\<close>: a row whose product is missing
  throws. The query has no \<open>orderBy\<close>; the rows are taken in insertion order here, and
  the handler uses one and the same array for the total, the stock test and the order
  lines.
\<close>

fun include_product :: "Product list \<Rightarrow> CartItem list \<Rightarrow> (CartItem \<times> Product) list option" where
  "include_product ps [] = Some []"
| "include_product ps (c # cs) =
     (case find (\<lambda>p. p_id p = c_productId c) ps of
        None \<Rightarrow> None
      | Some p \<Rightarrow>
          (case include_product ps cs of None \<Rightarrow> None | Some r \<Rightarrow> Some ((c, p) # r)))"

definition userCart :: "db \<Rightarrow> string \<Rightarrow> (CartItem \<times> Product) list option" where
  "userCart d uid = include_product (products d) (filter (\<lambda>c. c_userId c = uid) (cartItems d))"

text \<open>
  \<open>cartItems.reduce((acc, item) => acc + item.product.price * item.quantity, 0)\<close>,
  in double arithmetic from left to right; \<open>None\<close> when the total is not finite.
\<close>

definition addLine :: "real option \<Rightarrow> real \<Rightarrow> int \<Rightarrow> real option" where
  "addLine acc price quantity =
     (case acc of
        None \<Rightarrow> None
      | Some a \<Rightarrow>
          (case ieee_mul price (of_int quantity) of
             None \<Rightarrow> None
           | Some m \<Rightarrow> ieee_add a m))"

definition totalAmount :: "(CartItem \<times> Product) list \<Rightarrow> real option" where
  "totalAmount items =
     foldl (\<lambda>acc (item, product). addLine acc (p_price product) (c_quantity item)) (Some 0) items"

definition newOrderItems :: "string \<Rightarrow> (CartItem \<times> Product) list \<Rightarrow> OrderItem list" where
  "newOrderItems oid items =
     map (\<lambda>(item, product).
            \<lparr>oi_orderId = oid, oi_productId = c_productId item,
             oi_price = p_price product, oi_quantity = c_quantity item\<rparr>) items"

text \<open>
  \<open>POST\<close> of the checkout route. \<open>orderId\<close> is the uuid the database gives the order,
  \<open>invoice\<close> the outcome of \<open>createXenditInvoice\<close>: the invoice URL, or \<open>None\<close>
  when the gateway call throws. \<open>prisma.order.create\<close> throws on a total that is not a
  finite number and on a primary key that exists.
\<close>

definition checkout_POST ::
  "env \<Rightarrow> db \<Rightarrow> string option \<Rightarrow> string \<Rightarrow> string option \<Rightarrow> response \<times> db" where
  "checkout_POST e d hdr orderId invoice =
     (case getCurrentUser e d hdr of
        None \<Rightarrow> (unauthorizedResponse, d)
      | Some user \<Rightarrow>
          if u_role user \<noteq> CUSTOMER
          then ((403, Error ''Access denied: only customers can make payment.''), d)
          else (case userCart d (u_id user) of
                  None \<Rightarrow> ((500, Error ''Failed to process checkout''), d)
                | Some items \<Rightarrow>
                    if length items = 0 then ((400, Error ''Cart is empty''), d)
                    else (case find (\<lambda>(item, product). p_stock product < c_quantity item) items of
                            Some (item, product) \<Rightarrow>
                              ((400, InsufficientStock ''Insufficient stock'' (p_id product)
                                       (p_name product) (p_stock product) (c_quantity item)), d)
                          | None \<Rightarrow>
                              (case totalAmount items of
                                 None \<Rightarrow> ((500, Error ''Failed to process checkout''), d)
                               | Some amount \<Rightarrow>
                                   if find (\<lambda>ord. o_id ord = orderId) (orders d) \<noteq> None
                                   then ((500, Error ''Failed to process checkout''), d)
                                   else (let order = \<lparr>o_id = orderId, o_userId = u_id user,
                                                      o_totalAmount = amount,
                                                      o_paymentStatus = PENDING,
                                                      o_paymentMethod = ''XENDIT''\<rparr>;
                                             d1 = d\<lparr>orders := orders d @ [order],
                                                    orderItems := orderItems d @
                                                      newOrderItems orderId items\<rparr>
                                         in (case invoice of
                                               None \<Rightarrow>
                                                 ((500, Error ''Failed to process checkout''), d1)
                                             | Some invoiceUrl \<Rightarrow>
                                                 ((200, CheckoutBody orderId invoiceUrl amount),
                                                  d1\<lparr>cartItems :=
                                                      filter (\<lambda>c. c_userId c \<noteq> u_id user)
                                                             (cartItems d1)\<rparr>)))))))"

section \<open>Catalog administration\<close>

text \<open>
  The seven columns in the \<open>data\<close> argument of \<open>prisma.product.update\<close>: \<open>None\<close>
  leaves the column as it is. The write throws when a brand or category reference does
  not exist or the stock does not fit the column.
\<close>

record ProductData =
  set_name :: "string option"
  set_description :: "string option"
  set_price :: "real option"
  set_stock :: "int option"
  set_imageUrl :: "string option"
  set_brandId :: "string option"
  set_categoryId :: "string option"

definition orElse :: "'a option \<Rightarrow> 'a \<Rightarrow> 'a" where
  "orElse x y = (case x of None \<Rightarrow> y | Some v \<Rightarrow> v)"

definition applyData :: "ProductData \<Rightarrow> Product \<Rightarrow> Product" where
  "applyData u p =
     \<lparr>p_id = p_id p,
      p_name = orElse (set_name u) (p_name p),
      p_description = orElse (set_description u) (p_description p),
      p_price = orElse (set_price u) (p_price p),
      p_stock = orElse (set_stock u) (p_stock p),
      p_imageUrl = orElse (set_imageUrl u) (p_imageUrl p),
      p_brandId = orElse (set_brandId u) (p_brandId p),
      p_categoryId = orElse (set_categoryId u) (p_categoryId p)\<rparr>"

definition refExists :: "string option \<Rightarrow> string list \<Rightarrow> bool" where
  "refExists r tbl = (case r of None \<Rightarrow> True | Some k \<Rightarrow> k \<in> set tbl)"

definition product_update :: "db \<Rightarrow> string \<Rightarrow> ProductData \<Rightarrow> db option" where
  "product_update d pid u =
     (if refExists (set_brandId u) (brands d) \<and> refExists (set_categoryId u) (categories d)
         \<and> (case set_stock u of None \<Rightarrow> True | Some n \<Rightarrow> int4 n)
      then Some (d\<lparr>products := map (\<lambda>p. if p_id p = pid then applyData u p else p) (products d)\<rparr>)
      else None)"

definition product_create :: "db \<Rightarrow> Product \<Rightarrow> db option" where
  "product_create d p =
     (if findProduct d (p_id p) = None \<and> p_brandId p \<in> set (brands d)
         \<and> p_categoryId p \<in> set (categories d) \<and> int4 (p_stock p)
      then Some (d\<lparr>products := products d @ [p]\<rparr>)
      else None)"

text \<open>The three deletes of the product routes' transaction.\<close>

definition product_delete_tx :: "db \<Rightarrow> string \<Rightarrow> db" where
  "product_delete_tx d pid =
     d\<lparr>reviews := filter (\<lambda>r. r_productId r \<noteq> pid) (reviews d),
       cartItems := filter (\<lambda>c. c_productId c \<noteq> pid) (cartItems d),
       products := filter (\<lambda>p. p_id p \<noteq> pid) (products d)\<rparr>"

fun join_comma :: "string list \<Rightarrow> string" where
  "join_comma [] = []"
| "join_comma [x] = x"
| "join_comma (x # y # ys) = x @ '', '' @ join_comma (y # ys)"

text \<open>What Prisma accepts for a key or a reference: a string, or nothing at all.\<close>

fun stringField :: "jsv \<Rightarrow> string option option" where
  "stringField JUndefined = Some None"
| "stringField (JStr s) = Some (Some s)"
| "stringField _ = None"

text \<open>
  What \<open>update\<close> accepts for a \<open>String\<close> column: a string, the operation
  \<open>{set: string}\<close>, or nothing at all.
\<close>

definition textField :: "jsv \<Rightarrow> string option option" where
  "textField v =
     (case v of
        JUndefined \<Rightarrow> Some None
      | JStr s \<Rightarrow> Some (Some s)
      | JObject members \<Rightarrow>
          (case members of
             [(k, JStr s)] \<Rightarrow> if k = ''set'' then Some (Some s) else None
           | _ \<Rightarrow> None)
      | _ \<Rightarrow> None)"

text \<open>
  The database behind \<open>prismaNested\<close>: \<open>OrderItem.productId\<close> is a foreign key, so a
  write that would leave an order line without its product is refused; \<open>InvalidToken\<close>
  has no relation in the schema, so no nested write reaches it.
\<close>

definition orderItemsRef :: "db \<Rightarrow> bool" where
  "orderItemsRef d = (\<forall>oi \<in> set (orderItems d). findProduct d (oi_productId oi) \<noteq> None)"

definition nestedUpdate :: "env \<Rightarrow> db \<Rightarrow> string \<Rightarrow> ProductInput \<Rightarrow> (Product \<times> db) option" where
  "nestedUpdate e d pid body =
     (case prismaNested e d pid body of
        None \<Rightarrow> None
      | Some (p, d1) \<Rightarrow>
          (let d' = d1\<lparr>invalidTokens := invalidTokens d\<rparr>
           in if orderItemsRef d' then Some (p, d') else None))"

subsection \<open>JSON routes\<close>

text \<open>\<open>POST /api/products\<close> (and \<open>createProduct\<close>, the same text).\<close>

definition products_POST ::
  "env \<Rightarrow> db \<Rightarrow> string option \<Rightarrow> ProductInput \<Rightarrow> string \<Rightarrow> response \<times> db" where
  "products_POST e d hdr body newId =
     (if \<not> authAdminOnly e d hdr
      then ((403, Error ''Unauthorized - Admin access required''), d)
      else
        (let missingFields = map fst (filter (\<lambda>(field, v). v = JUndefined)
               [(''name'', in_name body), (''description'', in_description body),
                (''price'', in_price body), (''stock'', in_stock body),
                (''imageUrl'', in_imageUrl body), (''brandId'', in_brandId body),
                (''categoryId'', in_categoryId body)])
         in
         if length missingFields > 0
         then ((400, Error (''Missing required fields: '' @ join_comma missingFields)), d)
         else (case in_price body of
                 JNum price \<Rightarrow>
                   if price \<le> 0 then ((400, Error ''Price must be a positive number''), d)
                   else (case in_stock body of
                           JNum stock \<Rightarrow>
                             if stock < 0 \<or> \<not> isInteger stock
                             then ((400, Error ''Stock must be a non-negative integer''), d)
                             else (case (stringField (in_brandId body),
                                         stringField (in_categoryId body)) of
                                     (Some (Some brandId), Some (Some categoryId)) \<Rightarrow>
                                       if brandId \<notin> set (brands d)
                                       then ((400, Error ''Invalid brand ID''), d)
                                       else if categoryId \<notin> set (categories d)
                                       then ((400, Error ''Invalid category ID''), d)
                                       else (case (in_name body, in_description body,
                                                   in_imageUrl body) of
                                               (JStr name, JStr description, JStr imageUrl) \<Rightarrow>
                                                 (let product =
                                                    \<lparr>p_id = newId, p_name = name,
                                                     p_description = description,
                                                     p_price = price, p_stock = \<lfloor>stock\<rfloor>,
                                                     p_imageUrl = imageUrl, p_brandId = brandId,
                                                     p_categoryId = categoryId\<rparr>
                                                  in (case product_create d product of
                                                        None \<Rightarrow>
                                                          ((500, Error ''Failed to create product''), d)
                                                      | Some d' \<Rightarrow> ((201, ProductBody product), d')))
                                             | _ \<Rightarrow> ((500, Error ''Failed to create product''), d))
                                   | (Some (Some brandId), _) \<Rightarrow>
                                       if brandId \<notin> set (brands d)
                                       then ((400, Error ''Invalid brand ID''), d)
                                       else ((500, Error ''Failed to create product''), d)
                                   | _ \<Rightarrow> ((500, Error ''Failed to create product''), d))
                         | _ \<Rightarrow> ((400, Error ''Stock must be a non-negative integer''), d))
               | _ \<Rightarrow> ((400, Error ''Price must be a positive number''), d))))"

text \<open>
  The reference check of the update routes: skipped for a falsy id, and the lookup
  throws on a key that is not a string.
\<close>

datatype refcheck = RefOk | RefInvalid | RefThrows

definition checkRef :: "jsv \<Rightarrow> string list \<Rightarrow> refcheck" where
  "checkRef v tbl =
     (if truthy v
      then (case v of JStr k \<Rightarrow> if k \<in> set tbl then RefOk else RefInvalid | _ \<Rightarrow> RefThrows)
      else RefOk)"

definition bodyData :: "ProductInput \<Rightarrow> ProductData option" where
  "bodyData body =
     (case (textField (in_name body), textField (in_description body),
            textField (in_imageUrl body), stringField (in_brandId body),
            stringField (in_categoryId body)) of
        (Some name, Some description, Some imageUrl, Some brandId, Some categoryId) \<Rightarrow>
          (case (in_price body, in_stock body) of
             (JUndefined, JUndefined) \<Rightarrow>
               Some \<lparr>set_name = name, set_description = description, set_price = None,
                     set_stock = None, set_imageUrl = imageUrl, set_brandId = brandId,
                     set_categoryId = categoryId\<rparr>
           | (JNum price, JUndefined) \<Rightarrow>
               Some \<lparr>set_name = name, set_description = description, set_price = Some price,
                     set_stock = None, set_imageUrl = imageUrl, set_brandId = brandId,
                     set_categoryId = categoryId\<rparr>
           | (JUndefined, JNum stock) \<Rightarrow>
               if isInteger stock
               then Some \<lparr>set_name = name, set_description = description, set_price = None,
                          set_stock = Some \<lfloor>stock\<rfloor>, set_imageUrl = imageUrl,
                          set_brandId = brandId, set_categoryId = categoryId\<rparr>
               else None
           | (JNum price, JNum stock) \<Rightarrow>
               if isInteger stock
               then Some \<lparr>set_name = name, set_description = description, set_price = Some price,
                          set_stock = Some \<lfloor>stock\<rfloor>, set_imageUrl = imageUrl,
                          set_brandId = brandId, set_categoryId = categoryId\<rparr>
               else None
           | _ \<Rightarrow> None)
      | _ \<Rightarrow> None)"

text \<open>
  \<open>PUT /api/products/:id\<close> with a JSON body. The whole body is the \<open>data\<close> of
  \<open>prisma.product.update\<close>: with no key beyond the seven columns the write is
  \<open>product_update\<close>, otherwise it is \<open>nestedUpdate\<close>.
\<close>

definition products_id_PUT ::
  "env \<Rightarrow> db \<Rightarrow> string option \<Rightarrow> string \<Rightarrow> ProductInput \<Rightarrow> response \<times> db" where
  "products_id_PUT e d hdr pid body =
     (case getCurrentUser e d hdr of
        None \<Rightarrow> (unauthorizedResponse, d)
      | Some currentUser \<Rightarrow>
          if \<not> authAdminOnly e d hdr
          then ((403, Error ''Unauthorized - Admin access required''), d)
          else if pid = [] then ((400, Error ''Product ID is required''), d)
          else (case findProduct d pid of
                  None \<Rightarrow> ((404, Error ''Product not found''), d)
                | Some existingProduct \<Rightarrow>
                    if in_price body \<noteq> JUndefined \<and>
                       (case in_price body of JNum price \<Rightarrow> price \<le> 0 | _ \<Rightarrow> True)
                    then ((400, Error ''Price must be a positive number''), d)
                    else if in_stock body \<noteq> JUndefined \<and>
                       (case in_stock body of
                          JNum stock \<Rightarrow> stock < 0 \<or> \<not> isInteger stock | _ \<Rightarrow> True)
                    then ((400, Error ''Stock must be a non-negative integer''), d)
                    else (case checkRef (in_brandId body) (brands d) of
                            RefThrows \<Rightarrow> ((500, Error ''Failed to update product''), d)
                          | RefInvalid \<Rightarrow> ((400, Error ''Invalid brand ID''), d)
                          | RefOk \<Rightarrow>
                              (case checkRef (in_categoryId body) (categories d) of
                                 RefThrows \<Rightarrow> ((500, Error ''Failed to update product''), d)
                               | RefInvalid \<Rightarrow> ((400, Error ''Invalid category ID''), d)
                               | RefOk \<Rightarrow>
                                   if in_rest body = []
                                   then (case bodyData body of
                                           None \<Rightarrow> ((500, Error ''Failed to update product''), d)
                                         | Some u \<Rightarrow>
                                             (case product_update d pid u of
                                                None \<Rightarrow>
                                                  ((500, Error ''Failed to update product''), d)
                                              | Some d' \<Rightarrow>
                                                  ((200, ProductBody (applyData u existingProduct)),
                                                   d')))
                                   else (case nestedUpdate e d pid body of
                                           None \<Rightarrow> ((500, Error ''Failed to update product''), d)
                                         | Some (updatedProduct, d') \<Rightarrow>
                                             ((200, ProductBody updatedProduct), d'))))))"

text \<open>\<open>DELETE /api/products/:id\<close>.\<close>

definition products_id_DELETE ::
  "env \<Rightarrow> db \<Rightarrow> string option \<Rightarrow> string \<Rightarrow> response \<times> db" where
  "products_id_DELETE e d hdr pid =
     (case getCurrentUser e d hdr of
        None \<Rightarrow> (unauthorizedResponse, d)
      | Some currentUser \<Rightarrow>
          if \<not> authAdminOnly e d hdr
          then ((403, Error ''Unauthorized - Admin access required''), d)
          else if pid = [] then ((400, Error ''Product ID is required''), d)
          else (case findProduct d pid of
                  None \<Rightarrow> ((404, Error ''Product not found''), d)
                | Some existingProduct \<Rightarrow>
                    (case find (\<lambda>oi. oi_productId oi = pid) (orderItems d) of
                       Some hasOrderItems \<Rightarrow>
                         ((400, Error ''Cannot delete product with existing orders''), d)
                     | None \<Rightarrow>
                         ((200, Message ''Product deleted successfully''),
                          product_delete_tx d pid))))"

text \<open>The older \<open>DELETE\<close> beside \<open>createProduct\<close>: it asks \<open>authAdminOnly\<close> only.\<close>

definition createProduct_DELETE ::
  "env \<Rightarrow> db \<Rightarrow> string option \<Rightarrow> string \<Rightarrow> response \<times> db" where
  "createProduct_DELETE e d hdr pid =
     (if \<not> authAdminOnly e d hdr
      then ((403, Error ''Unauthorized - Admin access required''), d)
      else if pid = [] then ((400, Error ''Product ID is required''), d)
      else (case findProduct d pid of
              None \<Rightarrow> ((404, Error ''Product not found''), d)
            | Some existingProduct \<Rightarrow>
                (case find (\<lambda>oi. oi_productId oi = pid) (orderItems d) of
                   Some hasOrderItems \<Rightarrow>
                     ((400, Error ''Cannot delete product with existing orders''), d)
                 | None \<Rightarrow>
                     ((200, Message ''Product deleted successfully''),
                      product_delete_tx d pid))))"

subsection \<open>Form-data routes\<close>

text \<open>
  The product routes that read \<open>multipart/form-data\<close>. \<open>formData.get\<close> gives
  \<open>null\<close>, a string or a file for every key, whatever the handler casts it to.
  \<open>upload\<close> is the outcome of the upload to the asset host: the URL, or \<open>None\<close> when
  it throws.
\<close>

datatype formValue = Absent | Text string | FileValue

record ProductForm =
  f_name :: formValue
  f_description :: formValue
  f_price :: formValue
  f_stock :: formValue
  f_brandId :: formValue
  f_categoryId :: formValue
  f_imageFile :: formValue
  f_removeImage :: formValue

definition present :: "formValue \<Rightarrow> bool" where
  "present v = (case v of Absent \<Rightarrow> False | Text s \<Rightarrow> s \<noteq> [] | FileValue \<Rightarrow> True)"

text \<open>\<open>parseFloat\<close> and \<open>parseInt\<close> of a form value: a file or \<open>null\<close> gives \<open>NaN\<close>.\<close>

definition parseValue :: "(string \<Rightarrow> 'a option) \<Rightarrow> formValue \<Rightarrow> 'a option" where
  "parseValue parse v = (case v of Text s \<Rightarrow> parse s | _ \<Rightarrow> None)"

text \<open>\<open>if (field) { parse; if (isNaN) return ... }\<close>: the outer \<open>None\<close> is the \<open>NaN\<close>.\<close>

definition formNumber :: "(string \<Rightarrow> 'a option) \<Rightarrow> formValue \<Rightarrow> 'a option option" where
  "formNumber parse v =
     (if present v
      then (case parseValue parse v of None \<Rightarrow> None | Some x \<Rightarrow> Some (Some x))
      else Some None)"

text \<open>
  The reference check of the form update: skipped for a falsy value, and the lookup
  throws on a file.
\<close>

definition checkFormRef :: "formValue \<Rightarrow> string list \<Rightarrow> refcheck" where
  "checkFormRef v tbl =
     (case v of
        Absent \<Rightarrow> RefOk
      | Text k \<Rightarrow> if k = [] then RefOk else if k \<in> set tbl then RefOk else RefInvalid
      | FileValue \<Rightarrow> RefThrows)"

text \<open>A form value handed to Prisma as a string column or key: a file makes it throw.\<close>

definition formText :: "formValue \<Rightarrow> string option option" where
  "formText v = (case v of Absent \<Rightarrow> Some None | Text s \<Rightarrow> Some (Some s) | FileValue \<Rightarrow> None)"

definition products_POST_form ::
  "env \<Rightarrow> db \<Rightarrow> string option \<Rightarrow> ProductForm \<Rightarrow> string option \<Rightarrow> string \<Rightarrow> response \<times> db" where
  "products_POST_form e d hdr form upload newId =
     (if \<not> authAdminOnly e d hdr
      then ((403, Error ''Unauthorized - Admin access required''), d)
      else
        (let missingFields = map fst (filter (\<lambda>(field, v). \<not> present v)
               [(''name'', f_name form), (''description'', f_description form),
                (''price'', f_price form), (''stock'', f_stock form),
                (''brandId'', f_brandId form), (''categoryId'', f_categoryId form)])
         in
         if length missingFields > 0
         then ((400, Error (''Missing required fields: '' @ join_comma missingFields)), d)
         else (case parseValue (parseFloat e) (f_price form) of
                 None \<Rightarrow> ((400, Error ''Price must be a positive number''), d)
               | Some price \<Rightarrow>
                   if price \<le> 0 then ((400, Error ''Price must be a positive number''), d)
                   else (case parseValue (parseInt e) (f_stock form) of
                           None \<Rightarrow> ((400, Error ''Stock must be a non-negative integer''), d)
                         | Some stock \<Rightarrow>
                             if stock < 0
                             then ((400, Error ''Stock must be a non-negative integer''), d)
                             else (case (f_brandId form, f_categoryId form) of
                                     (Text brandId, Text categoryId) \<Rightarrow>
                                       if brandId \<notin> set (brands d)
                                       then ((400, Error ''Invalid brand ID''), d)
                                       else if categoryId \<notin> set (categories d)
                                       then ((400, Error ''Invalid category ID''), d)
                                       else if \<not> present (f_imageFile form)
                                       then ((400, Error ''Product image is required''), d)
                                       else if f_imageFile form \<noteq> FileValue
                                       then ((500, Error ''Failed to create product''), d)
                                       else (case upload of
                                               None \<Rightarrow> ((500, Error ''Failed to upload image''), d)
                                             | Some imageUrl \<Rightarrow>
                                                 (case (f_name form, f_description form) of
                                                    (Text name, Text description) \<Rightarrow>
                                                      (let product =
                                                         \<lparr>p_id = newId, p_name = name,
                                                          p_description = description,
                                                          p_price = price, p_stock = stock,
                                                          p_imageUrl = imageUrl,
                                                          p_brandId = brandId,
                                                          p_categoryId = categoryId\<rparr>
                                                       in (case product_create d product of
                                                             None \<Rightarrow>
                                                               ((500, Error ''Failed to create product''), d)
                                                           | Some d' \<Rightarrow>
                                                               ((201, ProductBody product), d')))
                                                  | _ \<Rightarrow>
                                                      ((500, Error ''Failed to create product''), d)))
                                   | _ \<Rightarrow> ((500, Error ''Failed to create product''), d))))))"

definition products_id_PUT_form ::
  "env \<Rightarrow> db \<Rightarrow> string option \<Rightarrow> string \<Rightarrow> ProductForm \<Rightarrow> string option \<Rightarrow> response \<times> db" where
  "products_id_PUT_form e d hdr pid form upload =
     (case getCurrentUser e d hdr of
        None \<Rightarrow> (unauthorizedResponse, d)
      | Some currentUser \<Rightarrow>
          if \<not> authAdminOnly e d hdr
          then ((403, Error ''Unauthorized - Admin access required''), d)
          else if pid = [] then ((400, Error ''Product ID is required''), d)
          else (case findProduct d pid of
                  None \<Rightarrow> ((404, Error ''Product not found''), d)
                | Some existingProduct \<Rightarrow>
                    (case formNumber (parseFloat e) (f_price form) of
                       None \<Rightarrow> ((400, Error ''Price must be a valid number''), d)
                     | Some price \<Rightarrow>
                         (case formNumber (parseInt e) (f_stock form) of
                            None \<Rightarrow> ((400, Error ''Stock must be a valid integer''), d)
                          | Some stock \<Rightarrow>
                              if (case price of None \<Rightarrow> False | Some v \<Rightarrow> v \<le> 0)
                              then ((400, Error ''Price must be a positive number''), d)
                              else if (case stock of None \<Rightarrow> False | Some v \<Rightarrow> v < 0)
                              then ((400, Error ''Stock must be a non-negative integer''), d)
                              else if checkFormRef (f_brandId form) (brands d) = RefThrows
                              then ((500, Error ''Failed to update product''), d)
                              else if checkFormRef (f_brandId form) (brands d) = RefInvalid
                              then ((400, Error ''Invalid brand ID''), d)
                              else if checkFormRef (f_categoryId form) (categories d) = RefThrows
                              then ((500, Error ''Failed to update product''), d)
                              else if checkFormRef (f_categoryId form) (categories d) = RefInvalid
                              then ((400, Error ''Invalid category ID''), d)
                              else if present (f_imageFile form) \<and> f_imageFile form \<noteq> FileValue
                              then ((500, Error ''Failed to update product''), d)
                              else if f_imageFile form = FileValue \<and> upload = None
                              then ((500, Error ''Failed to upload new image''), d)
                              else if \<not> present (f_imageFile form)
                                      \<and> f_removeImage form = Text ''true''
                              then ((500, Error ''Failed to update product''), d)
                              else
                                (case (formText (f_name form), formText (f_description form),
                                       formText (f_brandId form), formText (f_categoryId form)) of
                                   (Some name, Some description, Some brandId, Some categoryId) \<Rightarrow>
                                     (let u = \<lparr>set_name = name, set_description = description,
                                               set_price = price, set_stock = stock,
                                               set_imageUrl =
                                                 (if f_imageFile form = FileValue then upload
                                                  else None),
                                               set_brandId = brandId,
                                               set_categoryId = categoryId\<rparr>
                                      in (case product_update d pid u of
                                            None \<Rightarrow> ((500, Error ''Failed to update product''), d)
                                          | Some d' \<Rightarrow>
                                              ((200, ProductBody (applyData u existingProduct)),
                                               d')))
                                 | _ \<Rightarrow> ((500, Error ''Failed to update product''), d))))))"

definition products_id_DELETE_form ::
  "env \<Rightarrow> db \<Rightarrow> string option \<Rightarrow> string \<Rightarrow> response \<times> db" where
  "products_id_DELETE_form e d hdr pid =
     (case getCurrentUser e d hdr of
        None \<Rightarrow> (unauthorizedResponse, d)
      | Some currentUser \<Rightarrow>
          if \<not> authAdminOnly e d hdr
          then ((403, Error ''Unauthorized - Admin access required''), d)
          else if pid = [] then ((400, Error ''Product ID is required''), d)
          else (case findProduct d pid of
                  None \<Rightarrow> ((404, Error ''Product not found''), d)
                | Some existingProduct \<Rightarrow>
                    (let existingOrderItems = filter (\<lambda>oi. oi_productId oi = pid) (orderItems d) in
                     if length existingOrderItems > 0
                     then ((400, DeleteRefused ''Cannot delete product with existing orders''
                              ''Consider archiving the product instead''
                              (length existingOrderItems)), d)
                     else ((200, DeleteInfo ''Product deleted successfully'' pid
                              (p_imageUrl existingProduct \<noteq> [])),
                           product_delete_tx d pid))))"

section \<open>Sequences of requests\<close>

text \<open>
  One constructor for each handler above, carrying the request and what the outside
  world answers during it (fresh keys, the payment gateway, the asset host).
\<close>

datatype call =
    Logout "string option"
  | CartAdd "string option" jsv jsv string
  | CartUpdate "string option" string jsv jsv
  | CartRemove "string option" string "string option"
  | Checkout "string option" string "string option"
  | ProductCreate "string option" ProductInput string
  | ProductUpdate "string option" string ProductInput
  | ProductDelete "string option" string
  | ProductDeleteOld "string option" string
  | ProductCreateForm "string option" ProductForm "string option" string
  | ProductUpdateForm "string option" string ProductForm "string option"
  | ProductDeleteForm "string option" string

fun handle :: "env \<Rightarrow> db \<Rightarrow> call \<Rightarrow> response \<times> db" where
  "handle e d (Logout hdr) = logout_POST e d hdr"
| "handle e d (CartAdd hdr productId quantity newId) = cart_POST e d hdr productId quantity newId"
| "handle e d (CartUpdate hdr cid quantity userId) = cart_PUT e d hdr cid quantity userId"
| "handle e d (CartRemove hdr cid userId) = cart_DELETE e d hdr cid userId"
| "handle e d (Checkout hdr orderId invoice) = checkout_POST e d hdr orderId invoice"
| "handle e d (ProductCreate hdr body newId) = products_POST e d hdr body newId"
| "handle e d (ProductUpdate hdr pid body) = products_id_PUT e d hdr pid body"
| "handle e d (ProductDelete hdr pid) = products_id_DELETE e d hdr pid"
| "handle e d (ProductDeleteOld hdr pid) = createProduct_DELETE e d hdr pid"
| "handle e d (ProductCreateForm hdr form upload newId) = products_POST_form e d hdr form upload newId"
| "handle e d (ProductUpdateForm hdr pid form upload) = products_id_PUT_form e d hdr pid form upload"
| "handle e d (ProductDeleteForm hdr pid) = products_id_DELETE_form e d hdr pid"

fun run :: "env \<Rightarrow> db \<Rightarrow> call list \<Rightarrow> db" where
  "run e d [] = d"
| "run e d (c # cs) = run e (snd (handle e d c)) cs"



section \<open>src/middleware.ts\<close>






section \<open>Properties of database states\<close>

text \<open>Every order line belongs to an order that exists (the foreign key of the schema).\<close>

definition orderItemsHaveOrders :: "db \<Rightarrow> bool" where
  "orderItemsHaveOrders d =
     (\<forall>oi \<in> set (orderItems d). find (\<lambda>ord. o_id ord = oi_orderId oi) (orders d) \<noteq> None)"

definition orderItemsOf :: "db \<Rightarrow> string \<Rightarrow> OrderItem list" where
  "orderItemsOf d oid = filter (\<lambda>oi. oi_orderId oi = oid) (orderItems d)"

text \<open>
  The sum of price times quantity over order lines, as JavaScript computes it: in double
  arithmetic, from 0, in the order of the list. \<open>exactSum\<close> is the same sum in exact
  arithmetic.
\<close>

definition lineSum :: "OrderItem list \<Rightarrow> real option" where
  "lineSum ls = foldl (\<lambda>acc oi. addLine acc (oi_price oi) (oi_quantity oi)) (Some 0) ls"

definition exactSum :: "OrderItem list \<Rightarrow> real" where
  "exactSum ls = sum_list (map (\<lambda>oi. oi_price oi * of_int (oi_quantity oi)) ls)"

definition cartOf :: "db \<Rightarrow> string \<Rightarrow> CartItem list" where
  "cartOf d uid = filter (\<lambda>c. c_userId c = uid) (cartItems d)"

text \<open>What one request of the catalog administration does to the tables.\<close>

datatype change =
    Same
  | Created Product
  | Updated string ProductData
  | Deleted string

definition catalogChange :: "db \<Rightarrow> db \<Rightarrow> change \<Rightarrow> bool" where
  "catalogChange d d' ch =
     (orderItems d' = orderItems d \<and> invalidTokens d' = invalidTokens d \<and>
      (case ch of
         Same \<Rightarrow> products d' = products d
       | Created p \<Rightarrow> products d' = products d @ [p]
       | Updated pid u \<Rightarrow>
           products d' = map (\<lambda>p. if p_id p = pid then applyData u p else p) (products d)
       | Deleted pid \<Rightarrow>
           products d' = filter (\<lambda>p. p_id p \<noteq> pid) (products d)
           \<and> pid \<notin> oi_productId ` set (orderItems d)))"

text \<open>What any other request does: the catalog stays, tokens are only added, order lines
  are only appended, and only from a cart read with its products.\<close>

definition otherChange :: "db \<Rightarrow> db \<Rightarrow> bool" where
  "otherChange d d' =
     (products d' = products d \<and> set (invalidTokens d) \<subseteq> set (invalidTokens d')
      \<and> (orderItems d' = orderItems d
         \<or> (\<exists>uid items oid. userCart d uid = Some items
               \<and> orderItems d' = orderItems d @ newOrderItems oid items)))"

text \<open>What an update with nested writes does: whatever the foreign key allows.\<close>

definition nestedChange :: "db \<Rightarrow> db \<Rightarrow> bool" where
  "nestedChange d d' = (invalidTokens d' = invalidTokens d \<and> orderItemsRef d')"

section \<open>A small shop\<close>

text \<open>
  Two customers, one administrator, two products. \<open>shop\<close> has one unit of the laptop
  in stock and each customer holds one in the cart; \<open>shop2\<close> is the cart of the
  specification's example: two laptops at 10.00 and one mouse at 5.50.
\<close>

definition alice :: User where
  "alice = \<lparr>u_id = ''user-a'', u_name = ''Alice'', u_email = ''alice@example.com'', u_role = CUSTOMER\<rparr>"

definition bob :: User where
  "bob = \<lparr>u_id = ''user-b'', u_name = ''Bob'', u_email = ''bob@example.com'', u_role = CUSTOMER\<rparr>"

definition root :: User where
  "root = \<lparr>u_id = ''admin'', u_name = ''Root'', u_email = ''root@example.com'', u_role = ADMIN\<rparr>"

definition mallory :: User where
  "mallory = \<lparr>u_id = ''user-x'', u_name = ''Mallory'', u_email = ''mallory@example.com'',
              u_role = CUSTOMER\<rparr>"

definition laptopId :: string where
  "laptopId = ''00000000-0000-4000-8000-000000000001''"

definition mouseId :: string where
  "mouseId = ''00000000-0000-4000-8000-000000000002''"

definition cableId :: string where
  "cableId = ''00000000-0000-4000-8000-000000000003''"

definition laptop :: Product where
  "laptop = \<lparr>p_id = laptopId, p_name = ''Laptop'', p_description = ''A laptop'', p_price = 10,
             p_stock = 1, p_imageUrl = ''laptop.png'', p_brandId = ''brand-1'',
             p_categoryId = ''cat-1''\<rparr>"

definition mouse :: Product where
  "mouse = \<lparr>p_id = mouseId, p_name = ''Mouse'', p_description = ''A mouse'', p_price = 11 / 2,
            p_stock = 3, p_imageUrl = ''mouse.png'', p_brandId = ''brand-1'',
            p_categoryId = ''cat-1''\<rparr>"

definition cable :: Product where
  "cable = \<lparr>p_id = cableId, p_name = ''Cable'', p_description = ''A cable'', p_price = 1,
            p_stock = - 5, p_imageUrl = ''cable.png'', p_brandId = ''brand-1'',
            p_categoryId = ''cat-1''\<rparr>"

text \<open>
  A body for \<open>PUT /api/products/:id\<close> with one key, \<open>reviews\<close>: a nested write that
  creates a review of the product by a new user, who holds a new cart line for a new
  product, the cable, with stock -5.
\<close>

definition cableJson :: jsv where
  "cableJson =
     JObject [(''id'', JStr cableId), (''name'', JStr ''Cable''),
              (''description'', JStr ''A cable''), (''price'', JNum 1), (''stock'', JNum (- 5)),
              (''imageUrl'', JStr ''cable.png''),
              (''brand'', JObject [(''connect'', JObject [(''id'', JStr ''brand-1'')])]),
              (''category'', JObject [(''connect'', JObject [(''id'', JStr ''cat-1'')])])]"

definition nestedBody :: ProductInput where
  "nestedBody =
     \<lparr>in_name = JUndefined, in_description = JUndefined, in_price = JUndefined,
      in_stock = JUndefined, in_imageUrl = JUndefined, in_brandId = JUndefined,
      in_categoryId = JUndefined,
      in_rest =
        [(''reviews'',
          JObject [(''create'',
            JObject [(''rating'', JNum 5), (''comment'', JStr ''fine''),
                     (''user'',
                      JObject [(''create'',
                        JObject [(''id'', JStr ''user-x''), (''name'', JStr ''Mallory''),
                                 (''email'', JStr ''mallory@example.com''),
                                 (''password'', JStr ''secret''),
                                 (''CartItem'',
                                  JObject [(''create'',
                                    JObject [(''id'', JStr ''ci-x''), (''quantity'', JNum 1),
                                             (''product'',
                                              JObject [(''create'', cableJson)])])])])])])])]\<rparr>"

text \<open>What Prisma does with that body, and with no other.\<close>

definition demo_prismaNested :: "db \<Rightarrow> string \<Rightarrow> ProductInput \<Rightarrow> (Product \<times> db) option" where
  "demo_prismaNested d pid body =
     (if body = nestedBody
      then (case findProduct d pid of
              None \<Rightarrow> None
            | Some p \<Rightarrow>
                Some (p, d\<lparr>users := users d @ [mallory],
                            products := products d @ [cable],
                            reviews := reviews d @ [\<lparr>r_productId = pid\<rparr>],
                            cartItems := cartItems d @
                              [\<lparr>c_id = ''ci-x'', c_userId = ''user-x'', c_productId = cableId,
                                c_quantity = 1\<rparr>]\<rparr>))
      else None)"

definition demo_env :: env where
  "demo_env =
     \<lparr>jwt_verify = (\<lambda>t. if t = ''tokA'' then Some ''user-a''
                         else if t = ''tokB'' then Some ''user-b''
                         else if t = ''tokAdmin'' then Some ''admin'' else None),
      jwtVerify = (\<lambda>t. t = ''tokA'' \<or> t = ''tokB'' \<or> t = ''tokAdmin''),
      isUuid = (\<lambda>s. length s = 36),
      parseInt = (\<lambda>s. if s = ''7'' then Some 7 else None),
      parseFloat = (\<lambda>s. if s = ''2.5'' then Some (5 / 2) else None),
      intColumn = (\<lambda>r. Some (if 0 \<le> r then \<lfloor>r\<rfloor> else \<lceil>r\<rceil>)),
      prismaNested = demo_prismaNested\<rparr>"

definition shop :: db where
  "shop =
     \<lparr>users = [alice, bob, root], invalidTokens = [], brands = [''brand-1''],
      categories = [''cat-1''], products = [laptop, mouse], reviews = [],
      cartItems = [\<lparr>c_id = ''ci-a'', c_userId = ''user-a'', c_productId = laptopId, c_quantity = 1\<rparr>,
                   \<lparr>c_id = ''ci-b'', c_userId = ''user-b'', c_productId = laptopId, c_quantity = 1\<rparr>],
      orders = [], orderItems = []\<rparr>"

definition shop2 :: db where
  "shop2 =
     shop\<lparr>products := [laptop\<lparr>p_stock := 5\<rparr>, mouse],
          cartItems := [\<lparr>c_id = ''ci-1'', c_userId = ''user-a'', c_productId = laptopId, c_quantity = 2\<rparr>,
                        \<lparr>c_id = ''ci-2'', c_userId = ''user-a'', c_productId = mouseId, c_quantity = 1\<rparr>]\<rparr>"

text \<open>\<open>shop3\<close>: the same cart with one laptop in stock; \<open>shop4\<close>: the carts of \<open>shop\<close>, five laptops in stock.\<close>

definition shop3 :: db where
  "shop3 = shop2\<lparr>products := [laptop, mouse]\<rparr>"

definition shop4 :: db where
  "shop4 = shop\<lparr>products := [laptop\<lparr>p_stock := 5\<rparr>, mouse]\<rparr>"

text \<open>\<open>shop5\<close>: \<open>shop\<close> after Alice has ordered the laptop.\<close>

definition shop5 :: db where
  "shop5 =
     shop\<lparr>orders := [\<lparr>o_id = ''order-1'', o_userId = ''user-a'', o_totalAmount = 10,
                        o_paymentStatus = PENDING, o_paymentMethod = ''XENDIT''\<rparr>],
          orderItems := [\<lparr>oi_orderId = ''order-1'', oi_productId = laptopId, oi_price = 10,
                            oi_quantity = 1\<rparr>],
          cartItems := [\<lparr>c_id = ''ci-b'', c_userId = ''user-b'', c_productId = laptopId,
                           c_quantity = 1\<rparr>]\<rparr>"

text \<open>
  \<open>shop6\<close>: Alice's cart holds a pen and a pencil, priced at the doubles nearest to 0.1
  and 0.2.
\<close>

definition tenth :: real where
  "tenth = 3602879701896397 / 36028797018963968"

definition fifth :: real where
  "fifth = 3602879701896397 / 18014398509481984"

definition pen :: Product where
  "pen = \<lparr>p_id = laptopId, p_name = ''Pen'', p_description = ''A pen'', p_price = tenth,
          p_stock = 9, p_imageUrl = ''pen.png'', p_brandId = ''brand-1'',
          p_categoryId = ''cat-1''\<rparr>"

definition pencil :: Product where
  "pencil = \<lparr>p_id = mouseId, p_name = ''Pencil'', p_description = ''A pencil'', p_price = fifth,
             p_stock = 9, p_imageUrl = ''pencil.png'', p_brandId = ''brand-1'',
             p_categoryId = ''cat-1''\<rparr>"

definition shop6 :: db where
  "shop6 =
     shop\<lparr>products := [pen, pencil],
          cartItems := [\<lparr>c_id = ''ci-1'', c_userId = ''user-a'', c_productId = laptopId, c_quantity = 1\<rparr>,
                        \<lparr>c_id = ''ci-2'', c_userId = ''user-a'', c_productId = mouseId, c_quantity = 1\<rparr>]\<rparr>"

text \<open>An update body that sets the stock and nothing else.\<close>

definition stockOnly :: "real \<Rightarrow> ProductInput" where
  "stockOnly r =
     \<lparr>in_name = JUndefined, in_description = JUndefined, in_price = JUndefined,
      in_stock = JNum r, in_imageUrl = JUndefined, in_brandId = JUndefined,
      in_categoryId = JUndefined, in_rest = []\<rparr>"


text \<open>
  \<open>shop7\<close>: the cart of \<open>shop2\<close> with the laptop priced at \<open>2^1023\<close>, a double
  whose double is not finite.
\<close>

definition huge :: real where
  "huge = 89884656743115795386465259539451236680898848947115328636715040578866337902750481566354238661203768010560056939935696678829394884407208311246423715319737062188883946712432742638151109800623047059726541476042502884419075341171231440736956555270413618581675255342293149119973622969239858152417678164812112068608"

definition shop7 :: db where
  "shop7 = shop2\<lparr>products := [laptop\<lparr>p_price := huge, p_stock := 5\<rparr>, mouse]\<rparr>"

section \<open>Auxiliary facts\<close>

lemma foldl_addLine_map:
  "foldl (\<lambda>acc oi. addLine acc (oi_price oi) (oi_quantity oi)) a (newOrderItems oid items)
     = foldl (\<lambda>acc (item, product). addLine acc (p_price product) (c_quantity item)) a items"
  by (induction items arbitrary: a) (auto simp: newOrderItems_def)

lemma lineSum_newOrderItems: "lineSum (newOrderItems oid items) = totalAmount items"
  unfolding lineSum_def totalAmount_def by (rule foldl_addLine_map)

lemma include_product_fst:
  "include_product ps cs = Some items \<Longrightarrow> map fst items = cs"
  by (induction cs arbitrary: items) (auto split: option.splits)

lemma include_product_snd:
  "include_product ps cs = Some items \<Longrightarrow> (c, p) \<in> set items \<Longrightarrow>
     find (\<lambda>x. p_id x = c_productId c) ps = Some p"
  by (induction cs arbitrary: items) (auto split: option.splits)

lemma find_SomeD: "find P xs = Some x \<Longrightarrow> x \<in> set xs \<and> P x"
  by (induction xs) (auto split: if_splits)

lemma findProduct_None_iff: "findProduct d pid = None \<longleftrightarrow> pid \<notin> p_id ` set (products d)"
  unfolding findProduct_def by (auto simp: find_None_iff)

lemma orderItemsRef_alt:
  "orderItemsRef d \<longleftrightarrow> oi_productId ` set (orderItems d) \<subseteq> p_id ` set (products d)"
  unfolding orderItemsRef_def by (auto simp: findProduct_None_iff)

lemma p_id_applyData [simp]: "p_id (applyData u p) = p_id p"
  by (simp add: applyData_def)

text \<open>The primitive writes.\<close>

lemma product_create_frame:
  assumes "product_create d p = Some d'"
  shows "products d' = products d @ [p]" "orderItems d' = orderItems d"
    "invalidTokens d' = invalidTokens d"
  using assms unfolding product_create_def by (auto split: if_splits)

lemma product_update_frame:
  assumes "product_update d pid u = Some d'"
  shows "products d' = map (\<lambda>p. if p_id p = pid then applyData u p else p) (products d)"
    "orderItems d' = orderItems d" "invalidTokens d' = invalidTokens d"
  using assms unfolding product_update_def by (auto split: if_splits)

lemma product_delete_tx_frame:
  "products (product_delete_tx d pid) = filter (\<lambda>p. p_id p \<noteq> pid) (products d)"
  "orderItems (product_delete_tx d pid) = orderItems d"
  "invalidTokens (product_delete_tx d pid) = invalidTokens d"
  unfolding product_delete_tx_def by simp_all

lemma nestedUpdate_change:
  "nestedUpdate e d pid body = Some (p, d') \<Longrightarrow> nestedChange d d'"
  unfolding nestedUpdate_def nestedChange_def
  by (auto simp: Let_def split: option.splits if_splits)

lemma catalogChange_same [simp]: "catalogChange d d Same"
  by (simp add: catalogChange_def)

subsection \<open>What the catalog routes change\<close>

lemma catalogChange_created:
  "product_create d p = Some d' \<Longrightarrow> catalogChange d d' (Created p)"
  by (simp add: catalogChange_def product_create_frame)

lemma catalogChange_updated:
  "product_update d pid u = Some d' \<Longrightarrow> catalogChange d d' (Updated pid u)"
  by (simp add: catalogChange_def product_update_frame)

lemma catalogChange_deleted:
  "find (\<lambda>oi. oi_productId oi = pid) (orderItems d) = None \<Longrightarrow>
     catalogChange d (product_delete_tx d pid) (Deleted pid)"
  by (auto simp: catalogChange_def product_delete_tx_frame find_None_iff)

lemma products_POST_result:
  "products_POST e d hdr body newId = (r, d') \<Longrightarrow>
     d' = d \<or> (\<exists>p. product_create d p = Some d')"
  unfolding products_POST_def
  by (auto simp: Let_def split: if_splits jsv.splits option.splits prod.splits)

lemma products_POST_change:
  "products_POST e d hdr body newId = (r, d') \<Longrightarrow> \<exists>ch. catalogChange d d' ch"
  using products_POST_result catalogChange_created catalogChange_same by blast

lemma products_POST_form_result:
  "products_POST_form e d hdr form upload newId = (r, d') \<Longrightarrow>
     d' = d \<or> (\<exists>p. product_create d p = Some d')"
  unfolding products_POST_form_def
  by (auto simp: Let_def split: if_splits option.splits prod.splits formValue.splits)

lemma products_POST_form_change:
  "products_POST_form e d hdr form upload newId = (r, d') \<Longrightarrow> \<exists>ch. catalogChange d d' ch"
  using products_POST_form_result catalogChange_created catalogChange_same by blast

lemma products_id_PUT_result:
  "products_id_PUT e d hdr pid body = (r, d') \<Longrightarrow>
     d' = d \<or> (\<exists>u. product_update d pid u = Some d')
     \<or> (\<exists>p. nestedUpdate e d pid body = Some (p, d'))"
  unfolding products_id_PUT_def
  by (auto split: option.splits if_splits refcheck.splits prod.splits)

lemma products_id_PUT_change:
  "products_id_PUT e d hdr pid body = (r, d') \<Longrightarrow>
     (\<exists>ch. catalogChange d d' ch) \<or> nestedChange d d'"
  using products_id_PUT_result [of e d hdr pid body r d']
    catalogChange_updated nestedUpdate_change catalogChange_same by blast

lemma products_id_PUT_form_result:
  "products_id_PUT_form e d hdr pid form upload = (r, d') \<Longrightarrow>
     d' = d \<or> (\<exists>u. product_update d pid u = Some d')"
  unfolding products_id_PUT_form_def
  by (auto simp: Let_def split: option.splits if_splits prod.splits)

lemma products_id_PUT_form_change:
  "products_id_PUT_form e d hdr pid form upload = (r, d') \<Longrightarrow> \<exists>ch. catalogChange d d' ch"
  using products_id_PUT_form_result catalogChange_updated catalogChange_same by blast

lemma products_id_DELETE_change:
  "products_id_DELETE e d hdr pid = (r, d') \<Longrightarrow> \<exists>ch. catalogChange d d' ch"
  unfolding products_id_DELETE_def
  by (auto split: option.splits if_splits intro: catalogChange_deleted catalogChange_same)

lemma createProduct_DELETE_change:
  "createProduct_DELETE e d hdr pid = (r, d') \<Longrightarrow> \<exists>ch. catalogChange d d' ch"
  unfolding createProduct_DELETE_def
  by (auto split: option.splits if_splits intro: catalogChange_deleted catalogChange_same)

lemma filter_empty_find: "filter P xs = [] \<Longrightarrow> find P xs = None"
  by (auto simp: find_None_iff filter_empty_conv)

lemma products_id_DELETE_form_change:
  "products_id_DELETE_form e d hdr pid = (r, d') \<Longrightarrow> \<exists>ch. catalogChange d d' ch"
  unfolding products_id_DELETE_form_def
  by (auto simp: Let_def split: option.splits if_splits
           intro: catalogChange_deleted catalogChange_same dest!: filter_empty_find)

subsection \<open>Invariants of every request\<close>

lemma ref_change:
  assumes "catalogChange d d' ch" "orderItemsRef d"
  shows "orderItemsRef d'"
proof -
  from assms(1) have oi: "orderItems d' = orderItems d"
    by (simp add: catalogChange_def)
  from assms(2) have sub: "oi_productId ` set (orderItems d) \<subseteq> p_id ` set (products d)"
    by (simp add: orderItemsRef_alt)
  have "oi_productId ` set (orderItems d) \<subseteq> p_id ` set (products d')"
  proof (cases ch)
    case Same
    with assms(1) sub show ?thesis by (simp add: catalogChange_def)
  next
    case (Created p)
    with assms(1) sub show ?thesis by (auto simp: catalogChange_def)
  next
    case (Updated pid u)
    with assms(1) have "map p_id (products d') = map p_id (products d)"
      by (auto simp: catalogChange_def comp_def)
    then have "p_id ` set (products d') = p_id ` set (products d)"
      by (metis set_map)
    with sub show ?thesis by simp
  next
    case (Deleted pid)
    with assms(1) have p: "products d' = filter (\<lambda>p. p_id p \<noteq> pid) (products d)"
      and n: "pid \<notin> oi_productId ` set (orderItems d)"
      by (simp_all add: catalogChange_def)
    show ?thesis
    proof
      fix x assume x: "x \<in> oi_productId ` set (orderItems d)"
      with sub obtain q where "q \<in> set (products d)" "p_id q = x" by auto
      moreover from x n have "x \<noteq> pid" by auto
      ultimately show "x \<in> p_id ` set (products d')" using p by force
    qed
  qed
  with oi show ?thesis by (simp add: orderItemsRef_alt)
qed

text \<open>The handlers outside the catalog.\<close>

lemma logout_POST_frame:
  "logout_POST e d hdr = (r, d') \<Longrightarrow>
     products d' = products d \<and> orderItems d' = orderItems d
     \<and> set (invalidTokens d) \<subseteq> set (invalidTokens d')"
  unfolding logout_POST_def by (auto split: option.splits if_splits)

lemma cart_POST_frame:
  "cart_POST e d hdr productId quantity newId = (r, d') \<Longrightarrow>
     products d' = products d \<and> orderItems d' = orderItems d
     \<and> invalidTokens d' = invalidTokens d"
  unfolding cart_POST_def by (auto simp: Let_def split: option.splits if_splits)

lemma cart_PUT_frame:
  "cart_PUT e d hdr cid quantity userId = (r, d') \<Longrightarrow>
     products d' = products d \<and> orderItems d' = orderItems d
     \<and> invalidTokens d' = invalidTokens d"
  unfolding cart_PUT_def by (auto simp: Let_def split: option.splits if_splits jsv.splits)

lemma cart_DELETE_frame:
  "cart_DELETE e d hdr cid userId = (r, d') \<Longrightarrow>
     products d' = products d \<and> orderItems d' = orderItems d
     \<and> invalidTokens d' = invalidTokens d"
  unfolding cart_DELETE_def by (auto simp: Let_def split: option.splits if_splits)

lemma checkout_POST_frame:
  "checkout_POST e d hdr orderId invoice = (r, d') \<Longrightarrow>
     products d' = products d \<and> invalidTokens d' = invalidTokens d
     \<and> (orderItems d' = orderItems d
        \<or> (\<exists>uid items. userCart d uid = Some items
              \<and> orderItems d' = orderItems d @ newOrderItems orderId items))"
  unfolding checkout_POST_def
  by (auto simp: Let_def split: option.splits if_splits prod.splits) blast+

lemma newOrderItems_ref:
  "include_product ps cs = Some items \<Longrightarrow>
     oi_productId ` set (newOrderItems oid items) \<subseteq> p_id ` set ps"
proof
  fix x assume a: "include_product ps cs = Some items" and "x \<in> oi_productId ` set (newOrderItems oid items)"
  then obtain c p where cp: "(c, p) \<in> set items" "x = c_productId c"
    unfolding newOrderItems_def by auto
  from include_product_snd [OF a cp(1)] have "find (\<lambda>q. p_id q = c_productId c) ps = Some p" .
  from find_SomeD [OF this] have "p \<in> set ps" "p_id p = c_productId c"
    by auto
  with cp show "x \<in> p_id ` set ps" by force
qed

lemma handle_effect:
  "handle e d c = (r, d') \<Longrightarrow>
     (\<exists>ch. catalogChange d d' ch) \<or> otherChange d d' \<or> nestedChange d d'"
proof (cases c)
  case (Logout hdr)
  then show "handle e d c = (r, d') \<Longrightarrow> ?thesis"
    using logout_POST_frame [of e d hdr r d'] by (simp add: otherChange_def)
next
  case (CartAdd hdr a b n)
  then show "handle e d c = (r, d') \<Longrightarrow> ?thesis"
    using cart_POST_frame [of e d hdr a b n r d'] by (simp add: otherChange_def)
next
  case (CartUpdate hdr a b n)
  then show "handle e d c = (r, d') \<Longrightarrow> ?thesis"
    using cart_PUT_frame [of e d hdr a b n r d'] by (simp add: otherChange_def)
next
  case (CartRemove hdr a b)
  then show "handle e d c = (r, d') \<Longrightarrow> ?thesis"
    using cart_DELETE_frame [of e d hdr a b r d'] by (simp add: otherChange_def)
next
  case (Checkout hdr a b)
  then show "handle e d c = (r, d') \<Longrightarrow> ?thesis"
    using checkout_POST_frame [of e d hdr a b r d'] by (auto simp: otherChange_def)
next
  case (ProductCreate hdr body newId)
  then show "handle e d c = (r, d') \<Longrightarrow> ?thesis"
    using products_POST_change [of e d hdr body newId r d'] by simp
next
  case (ProductUpdate hdr pid body)
  then show "handle e d c = (r, d') \<Longrightarrow> ?thesis"
    using products_id_PUT_change [of e d hdr pid body r d'] by auto
next
  case (ProductDelete hdr pid)
  then show "handle e d c = (r, d') \<Longrightarrow> ?thesis"
    using products_id_DELETE_change [of e d hdr pid r d'] by simp
next
  case (ProductDeleteOld hdr pid)
  then show "handle e d c = (r, d') \<Longrightarrow> ?thesis"
    using createProduct_DELETE_change [of e d hdr pid r d'] by simp
next
  case (ProductCreateForm hdr form upload newId)
  then show "handle e d c = (r, d') \<Longrightarrow> ?thesis"
    using products_POST_form_change [of e d hdr form upload newId r d'] by simp
next
  case (ProductUpdateForm hdr pid form upload)
  then show "handle e d c = (r, d') \<Longrightarrow> ?thesis"
    using products_id_PUT_form_change [of e d hdr pid form upload r d'] by simp
next
  case (ProductDeleteForm hdr pid)
  then show "handle e d c = (r, d') \<Longrightarrow> ?thesis"
    using products_id_DELETE_form_change [of e d hdr pid r d'] by simp
qed

lemma ref_other:
  assumes "otherChange d d'" "orderItemsRef d"
  shows "orderItemsRef d'"
proof -
  from assms(1) have p: "products d' = products d"
    by (simp add: otherChange_def)
  from assms(2) have sub: "oi_productId ` set (orderItems d) \<subseteq> p_id ` set (products d)"
    by (simp add: orderItemsRef_alt)
  from assms(1) consider "orderItems d' = orderItems d"
    | uid items oid where "userCart d uid = Some items"
        "orderItems d' = orderItems d @ newOrderItems oid items"
    by (auto simp: otherChange_def)
  then have "oi_productId ` set (orderItems d') \<subseteq> p_id ` set (products d)"
  proof cases
    case 1
    with sub show ?thesis by simp
  next
    case 2
    from 2(1) have "oi_productId ` set (newOrderItems oid items) \<subseteq> p_id ` set (products d)"
      unfolding userCart_def by (rule newOrderItems_ref)
    with sub 2(2) show ?thesis by (simp add: image_Un)
  qed
  with p show ?thesis by (simp add: orderItemsRef_alt)
qed

lemma handle_ref:
  "orderItemsRef d \<Longrightarrow> orderItemsRef (snd (handle e d c))"
  using handle_effect [of e d c "fst (handle e d c)" "snd (handle e d c)"]
    ref_change ref_other by (auto simp: nestedChange_def)


lemma run_ref: "orderItemsRef d \<Longrightarrow> orderItemsRef (run e d cs)"
  by (induction cs arbitrary: d) (simp_all add: handle_ref)


subsection \<open>Double arithmetic on examples\<close>

lemma double_examples:
  "toDouble (1 / 10) = Some tenth \<and> toDouble (2 / 10) = Some fifth
   \<and> ieee_add tenth fifth = Some (5404319552844596 / 18014398509481984)
   \<and> toDouble (3 / 10) = Some (5404319552844595 / 18014398509481984)
   \<and> ieee_mul 10 2 = Some 20 \<and> ieee_add 20 (11 / 2) = Some (51 / 2)"
  by code_simp

text \<open>A total that is not finite: the order is not written and the answer is 500.\<close>

lemma checkout_total_overflow:
  "checkout_POST demo_env shop7 (Some ''Bearer tokA'') ''order-1'' (Some ''https://pay.example/1'')
     = ((500, Error ''Failed to process checkout''), shop7)"
  by code_simp

section \<open>Properties of checkout\<close>

lemma checkout_POST_200:
  assumes "checkout_POST e d hdr orderId invoice = ((200, b), d')"
  shows "\<exists>user items invoiceUrl amount.
           getCurrentUser e d hdr = Some user \<and> u_role user = CUSTOMER
         \<and> userCart d (u_id user) = Some items \<and> items \<noteq> []
         \<and> totalAmount items = Some amount
         \<and> find (\<lambda>ord. o_id ord = orderId) (orders d) = None
         \<and> invoice = Some invoiceUrl
         \<and> b = CheckoutBody orderId invoiceUrl amount
         \<and> d' = d\<lparr>orders := orders d @
                     [\<lparr>o_id = orderId, o_userId = u_id user, o_totalAmount = amount,
                       o_paymentStatus = PENDING, o_paymentMethod = ''XENDIT''\<rparr>],
                   orderItems := orderItems d @ newOrderItems orderId items,
                   cartItems := filter (\<lambda>c. c_userId c \<noteq> u_id user) (cartItems d)\<rparr>"
  using assms unfolding checkout_POST_def unauthorizedResponse_def
  by (auto simp: Let_def split: option.splits if_splits prod.splits)

lemma orderItemsOf_new:
  assumes "orderItemsHaveOrders d" "find (\<lambda>ord. o_id ord = oid) (orders d) = None"
    and "orderItems d' = orderItems d @ newOrderItems oid items"
  shows "orderItemsOf d' oid = newOrderItems oid items"
proof -
  have "filter (\<lambda>oi. oi_orderId oi = oid) (orderItems d) = []"
  proof (rule ccontr)
    assume "filter (\<lambda>oi. oi_orderId oi = oid) (orderItems d) \<noteq> []"
    then obtain oi where "oi \<in> set (orderItems d)" "oi_orderId oi = oid"
      by (auto simp: filter_empty_conv)
    with assms(1) have "find (\<lambda>ord. o_id ord = oid) (orders d) \<noteq> None"
      by (auto simp: orderItemsHaveOrders_def)
    with assms(2) show False by simp
  qed
  moreover have "filter (\<lambda>oi. oi_orderId oi = oid) (newOrderItems oid items) = newOrderItems oid items"
    by (auto simp: newOrderItems_def filter_id_conv)
  ultimately show ?thesis using assms(3) by (simp add: orderItemsOf_def)
qed

text \<open>
  C1, as stated, fails: the total is a sum of doubles. With a pen at the double nearest
  to 0.1 and a pencil at the double nearest to 0.2 in the cart, checkout succeeds and the
  order's total is 0.30000000000000004 (5404319552844596 / 2^54), which is not the sum of
  price times quantity over the two order lines.
\<close>

theorem checkout_exact_sum_counterexample:
  "checkout_POST demo_env shop6 (Some ''Bearer tokA'') ''order-1'' (Some ''https://pay.example/1'')
     = ((200, CheckoutBody ''order-1'' ''https://pay.example/1''
                (5404319552844596 / 18014398509481984)),
        shop6\<lparr>orders := [\<lparr>o_id = ''order-1'', o_userId = ''user-a'',
                           o_totalAmount = 5404319552844596 / 18014398509481984,
                           o_paymentStatus = PENDING, o_paymentMethod = ''XENDIT''\<rparr>],
               orderItems := [\<lparr>oi_orderId = ''order-1'', oi_productId = laptopId,
                                oi_price = tenth, oi_quantity = 1\<rparr>,
                              \<lparr>oi_orderId = ''order-1'', oi_productId = mouseId,
                                oi_price = fifth, oi_quantity = 1\<rparr>],
               cartItems := []\<rparr>)
   \<and> exactSum [\<lparr>oi_orderId = ''order-1'', oi_productId = laptopId,
                  oi_price = tenth, oi_quantity = 1\<rparr>,
                \<lparr>oi_orderId = ''order-1'', oi_productId = mouseId,
                  oi_price = fifth, oi_quantity = 1\<rparr>]
       = 10808639105689191 / 36028797018963968
   \<and> (5404319552844596 / 18014398509481984 :: real) \<noteq> 10808639105689191 / 36028797018963968"
  by code_simp

text \<open>
  C1, amended. For every successful checkout (status 200), the created order's
  \<open>totalAmount\<close> is the sum over its order lines of price times quantity as the code
  computes it, in double arithmetic from 0 in the order the lines were written; each line
  is the snapshot of a cart line's product, price and quantity; the user's cart is empty
  afterwards; and the response carries the order id, the invoice URL and the total amount.
\<close>

theorem checkout_success:
  assumes "checkout_POST e d hdr orderId invoice = ((200, b), d')"
  shows "\<exists>user items invoiceUrl order.
           getCurrentUser e d hdr = Some user
         \<and> userCart d (u_id user) = Some items
         \<and> map fst items = cartOf d (u_id user)
         \<and> (\<forall>(item, product) \<in> set items. findProduct d (c_productId item) = Some product)
         \<and> invoice = Some invoiceUrl
         \<and> orders d' = orders d @ [order]
         \<and> o_id order = orderId \<and> o_userId order = u_id user \<and> o_paymentStatus order = PENDING
         \<and> orderItems d' = orderItems d @ newOrderItems orderId items
         \<and> map (\<lambda>oi. (oi_productId oi, oi_price oi, oi_quantity oi)) (newOrderItems orderId items)
             = map (\<lambda>(item, product). (c_productId item, p_price product, c_quantity item)) items
         \<and> (orderItemsHaveOrders d \<longrightarrow> orderItemsOf d' orderId = newOrderItems orderId items)
         \<and> lineSum (newOrderItems orderId items) = Some (o_totalAmount order)
         \<and> cartOf d' (u_id user) = []
         \<and> b = CheckoutBody orderId invoiceUrl (o_totalAmount order)"
proof -
  from checkout_POST_200 [OF assms] obtain user items invoiceUrl amount where
    u: "getCurrentUser e d hdr = Some user"
    and c: "userCart d (u_id user) = Some items"
    and t: "totalAmount items = Some amount"
    and f: "find (\<lambda>ord. o_id ord = orderId) (orders d) = None"
    and i: "invoice = Some invoiceUrl"
    and b: "b = CheckoutBody orderId invoiceUrl amount"
    and d': "d' = d\<lparr>orders := orders d @
                     [\<lparr>o_id = orderId, o_userId = u_id user, o_totalAmount = amount,
                       o_paymentStatus = PENDING, o_paymentMethod = ''XENDIT''\<rparr>],
                   orderItems := orderItems d @ newOrderItems orderId items,
                   cartItems := filter (\<lambda>c. c_userId c \<noteq> u_id user) (cartItems d)\<rparr>"
    by blast
  let ?order = "\<lparr>o_id = orderId, o_userId = u_id user, o_totalAmount = amount,
                  o_paymentStatus = PENDING, o_paymentMethod = ''XENDIT''\<rparr>"
  have 1: "map fst items = cartOf d (u_id user)"
    using c include_product_fst by (simp add: userCart_def cartOf_def)
  have 2: "\<forall>(item, product) \<in> set items. findProduct d (c_productId item) = Some product"
    using c include_product_snd by (fastforce simp: userCart_def findProduct_def)
  have 3: "map (\<lambda>oi. (oi_productId oi, oi_price oi, oi_quantity oi)) (newOrderItems orderId items)
             = map (\<lambda>(item, product). (c_productId item, p_price product, c_quantity item)) items"
    by (auto simp: newOrderItems_def)
  have 4: "orderItemsHaveOrders d \<longrightarrow> orderItemsOf d' orderId = newOrderItems orderId items"
    using orderItemsOf_new [of d orderId d' items] f d' by simp
  have 5: "lineSum (newOrderItems orderId items) = Some (o_totalAmount ?order)"
    using t by (simp add: lineSum_newOrderItems)
  have 6: "cartOf d' (u_id user) = []"
    using d' by (auto simp: cartOf_def filter_empty_conv)
  have 7: "orders d' = orders d @ [?order]" "orderItems d' = orderItems d @ newOrderItems orderId items"
    using d' by simp_all
  have 8: "b = CheckoutBody orderId invoiceUrl (o_totalAmount ?order)"
    using b by simp
  show ?thesis
    apply (rule exI [of _ user], rule exI [of _ items], rule exI [of _ invoiceUrl],
           rule exI [of _ ?order])
    using u c i 1 2 3 4 5 6 7 8 by simp
qed

theorem checkout_success_witness:
  "fst (checkout_POST demo_env shop2 (Some ''Bearer tokA'') ''order-1'' (Some ''https://pay.example/1''))
     = (200, CheckoutBody ''order-1'' ''https://pay.example/1'' (51 / 2))
   \<and> (\<exists>order. orders (snd (checkout_POST demo_env shop2 (Some ''Bearer tokA'') ''order-1''
                              (Some ''https://pay.example/1''))) = orders shop2 @ [order]
        \<and> o_totalAmount order = 51 / 2)
   \<and> cartOf (snd (checkout_POST demo_env shop2 (Some ''Bearer tokA'') ''order-1''
                              (Some ''https://pay.example/1''))) ''user-a'' = []"
proof -
  let ?r = "checkout_POST demo_env shop2 (Some ''Bearer tokA'') ''order-1'' (Some ''https://pay.example/1'')"
  have h: "fst ?r = (200, CheckoutBody ''order-1'' ''https://pay.example/1'' (51 / 2))"
    by code_simp
  then have "?r = ((200, CheckoutBody ''order-1'' ''https://pay.example/1'' (51 / 2)), snd ?r)"
    by (simp add: prod_eq_iff)
  from checkout_success [OF this] obtain user order where
    "getCurrentUser demo_env shop2 (Some ''Bearer tokA'') = Some user"
    "orders (snd ?r) = orders shop2 @ [order]"
    "cartOf (snd ?r) (u_id user) = []"
    "CheckoutBody ''order-1'' ''https://pay.example/1'' (51 / 2)
       = CheckoutBody ''order-1'' ''https://pay.example/1'' (o_totalAmount order)"
    by blast
  moreover have "getCurrentUser demo_env shop2 (Some ''Bearer tokA'') = Some alice"
    by code_simp
  ultimately show ?thesis using h by (auto simp: alice_def)
qed

text \<open>
  C2. When some line of the caller's cart asks for more than the product's current
  stock, checkout answers 400 \<open>Insufficient stock\<close> naming a product of the cart
  whose stock is too small, its stock and the quantity asked, and the database is left
  as it was: no order and no order line is written.
\<close>

theorem checkout_insufficient_stock:
  assumes "getCurrentUser e d hdr = Some user" and "u_role user = CUSTOMER"
    and "userCart d (u_id user) = Some items"
    and "\<exists>(item, product) \<in> set items. p_stock product < c_quantity item"
  shows "\<exists>item product.
           (item, product) \<in> set items \<and> p_stock product < c_quantity item
         \<and> checkout_POST e d hdr orderId invoice =
             ((400, InsufficientStock ''Insufficient stock'' (p_id product) (p_name product)
                      (p_stock product) (c_quantity item)), d)
         \<and> orders (snd (checkout_POST e d hdr orderId invoice)) = orders d
         \<and> orderItems (snd (checkout_POST e d hdr orderId invoice)) = orderItems d"
proof -
  from assms(4) have ne: "items \<noteq> []" by auto
  from assms(4) have "find (\<lambda>(item, product). p_stock product < c_quantity item) items \<noteq> None"
    by (auto simp: find_None_iff)
  then obtain item product where
    f: "find (\<lambda>(item, product). p_stock product < c_quantity item) items = Some (item, product)"
    by fastforce
  from find_SomeD [OF this]
  have "(item, product) \<in> set items" "p_stock product < c_quantity item"
    by auto
  moreover have "checkout_POST e d hdr orderId invoice =
             ((400, InsufficientStock ''Insufficient stock'' (p_id product) (p_name product)
                      (p_stock product) (c_quantity item)), d)"
    using assms(1-3) ne f by (simp add: checkout_POST_def)
  ultimately show ?thesis by force
qed

theorem checkout_insufficient_stock_witness:
  "checkout_POST demo_env shop3 (Some ''Bearer tokA'') ''order-1'' (Some ''https://pay.example/1'')
     = ((400, InsufficientStock ''Insufficient stock'' laptopId ''Laptop'' 1 2), shop3)"
proof -
  have 1: "getCurrentUser demo_env shop3 (Some ''Bearer tokA'') = Some alice"
    by code_simp
  have 2: "u_role alice = CUSTOMER" by code_simp
  have 3: "userCart shop3 (u_id alice) =
             Some [(\<lparr>c_id = ''ci-1'', c_userId = ''user-a'', c_productId = laptopId, c_quantity = 2\<rparr>, laptop),
                   (\<lparr>c_id = ''ci-2'', c_userId = ''user-a'', c_productId = mouseId, c_quantity = 1\<rparr>, mouse)]"
    by code_simp
  have 4: "\<exists>(item, product) \<in> set [(\<lparr>c_id = ''ci-1'', c_userId = ''user-a'', c_productId = laptopId, c_quantity = 2\<rparr>, laptop),
                   (\<lparr>c_id = ''ci-2'', c_userId = ''user-a'', c_productId = mouseId, c_quantity = 1\<rparr>, mouse)].
            p_stock product < c_quantity item"
    by (simp add: laptop_def)
  from checkout_insufficient_stock [OF 1 2 3 4, of "''order-1''" "Some ''https://pay.example/1''"]
  show ?thesis by (auto simp: laptop_def mouse_def)
qed

text \<open>
  C8. Checkout on an empty cart answers 400 \<open>Cart is empty\<close> and leaves the database
  as it was.
\<close>

theorem checkout_empty_cart:
  assumes "getCurrentUser e d hdr = Some user" and "u_role user = CUSTOMER"
    and "cartOf d (u_id user) = []"
  shows "checkout_POST e d hdr orderId invoice = ((400, Error ''Cart is empty''), d)"
  using assms by (simp add: checkout_POST_def userCart_def cartOf_def)

theorem checkout_empty_cart_witness:
  "checkout_POST demo_env (shop\<lparr>cartItems := []\<rparr>) (Some ''Bearer tokA'') ''order-1''
       (Some ''https://pay.example/1'')
     = ((400, Error ''Cart is empty''), shop\<lparr>cartItems := []\<rparr>)"
proof -
  have 1: "getCurrentUser demo_env (shop\<lparr>cartItems := []\<rparr>) (Some ''Bearer tokA'') = Some alice"
    by code_simp
  have 2: "u_role alice = CUSTOMER" by code_simp
  have 3: "cartOf (shop\<lparr>cartItems := []\<rparr>) (u_id alice) = []" by code_simp
  from checkout_empty_cart [OF 1 2 3] show ?thesis .
qed

text \<open>
  C6. When the order has been written (the stock test passed, the total is finite, the
  key is new) and the payment gateway fails, the order and its lines stay written with
  status \<open>PENDING\<close>, the caller gets the error response 500, and no cart line is deleted.
\<close>

theorem checkout_gateway_failure:
  assumes "getCurrentUser e d hdr = Some user" and "u_role user = CUSTOMER"
    and "userCart d (u_id user) = Some items" and "items \<noteq> []"
    and "\<forall>(item, product) \<in> set items. c_quantity item \<le> p_stock product"
    and "totalAmount items = Some amount"
    and "find (\<lambda>ord. o_id ord = orderId) (orders d) = None"
  shows "\<exists>d'. checkout_POST e d hdr orderId None = ((500, Error ''Failed to process checkout''), d')
           \<and> orders d' = orders d @
                [\<lparr>o_id = orderId, o_userId = u_id user, o_totalAmount = amount,
                  o_paymentStatus = PENDING, o_paymentMethod = ''XENDIT''\<rparr>]
           \<and> orderItems d' = orderItems d @ newOrderItems orderId items
           \<and> cartItems d' = cartItems d"
proof -
  from assms(5) have "find (\<lambda>(item, product). p_stock product < c_quantity item) items = None"
    by (auto simp: find_None_iff)
  with assms(1-4,6,7) show ?thesis
    by (simp add: checkout_POST_def Let_def)
qed

theorem checkout_gateway_failure_witness:
  "\<exists>d'. checkout_POST demo_env shop2 (Some ''Bearer tokA'') ''order-1'' None
            = ((500, Error ''Failed to process checkout''), d')
       \<and> orders d' = [\<lparr>o_id = ''order-1'', o_userId = ''user-a'', o_totalAmount = 51 / 2,
                         o_paymentStatus = PENDING, o_paymentMethod = ''XENDIT''\<rparr>]
       \<and> cartItems d' = cartItems shop2"
proof -
  let ?items = "[(\<lparr>c_id = ''ci-1'', c_userId = ''user-a'', c_productId = laptopId, c_quantity = 2\<rparr>, laptop\<lparr>p_stock := 5\<rparr>),
                   (\<lparr>c_id = ''ci-2'', c_userId = ''user-a'', c_productId = mouseId, c_quantity = 1\<rparr>, mouse)]"
  have 1: "getCurrentUser demo_env shop2 (Some ''Bearer tokA'') = Some alice"
    by code_simp
  have 2: "u_role alice = CUSTOMER" by code_simp
  have 3: "userCart shop2 (u_id alice) = Some ?items"
    by code_simp
  have 4: "?items \<noteq> []" by simp
  have 5: "\<forall>(item, product) \<in> set ?items. c_quantity item \<le> p_stock product"
    by (simp add: mouse_def)
  have 6: "totalAmount ?items = Some (51 / 2)" by code_simp
  have 7: "find (\<lambda>ord. o_id ord = ''order-1'') (orders shop2) = None"
    by code_simp
  have 8: "orders shop2 = []" by code_simp
  from checkout_gateway_failure [OF 1 2 3 4 5 6 7]
  show ?thesis unfolding 8 by (auto simp: alice_def)
qed

section \<open>Cart requests\<close>

text \<open>
  C7. Adding to the cart, for an authenticated customer: a quantity below 1 is a
  validation error; a product that does not exist is 404; otherwise the request succeeds
  exactly when the quantity already in the cart plus the quantity asked is at most the
  stock, creating the line on the first add (201) and incrementing it afterwards (200);
  when stock is insufficient the answer is 400 and the database is left as it was.
\<close>

theorem cart_add_item:
  assumes "getCurrentUser e d hdr = Some user" and "u_role user = CUSTOMER"
    and "\<forall>c \<in> set (cartItems d). 1 \<le> c_quantity c"
    and "find (\<lambda>c. c_id c = newId) (cartItems d) = None"
  shows
    "(\<forall>r. quantity = JNum r \<and> r < 1 \<longrightarrow>
        cart_POST e d hdr productId quantity newId = ((400, InvalidInput), d))
   \<and> (\<forall>pid q. cartInputSchema e productId quantity = Some (pid, q) \<and> findProduct d pid = None \<longrightarrow>
        cart_POST e d hdr productId quantity newId = ((404, Error ''Product not found''), d))
   \<and> (\<forall>pid q product.
        cartInputSchema e productId quantity = Some (pid, q) \<and> findProduct d pid = Some product \<longrightarrow>
        (case find (\<lambda>c. c_userId c = u_id user \<and> c_productId c = pid) (cartItems d) of
           None \<Rightarrow>
             (if q \<le> p_stock product
              then cart_POST e d hdr productId quantity newId =
                     ((201, CartMessage ''Item added to cart''
                              \<lparr>c_id = newId, c_userId = u_id user, c_productId = pid, c_quantity = q\<rparr>),
                      d\<lparr>cartItems := cartItems d @
                          [\<lparr>c_id = newId, c_userId = u_id user, c_productId = pid, c_quantity = q\<rparr>]\<rparr>)
              else cart_POST e d hdr productId quantity newId =
                     ((400, StockError ''Not enough stock available'' (p_stock product)), d))
         | Some existing \<Rightarrow>
             (if c_quantity existing + q \<le> p_stock product
              then cart_POST e d hdr productId quantity newId =
                     ((200, CartMessage ''Cart item updated''
                              (existing\<lparr>c_quantity := c_quantity existing + q\<rparr>)),
                      d\<lparr>cartItems := map (\<lambda>c. if c_id c = c_id existing
                                                then c\<lparr>c_quantity := c_quantity existing + q\<rparr>
                                                else c) (cartItems d)\<rparr>)
              else cart_POST e d hdr productId quantity newId =
                     ((400, StockError ''Not enough stock available'' (p_stock product)), d)
                 \<or> cart_POST e d hdr productId quantity newId =
                     ((400, ExceedsError ''Cannot add this quantity. It exceeds available stock.''
                              (c_quantity existing) (p_stock product)), d))))"
proof (intro conjI allI impI)
  fix r assume "quantity = JNum r \<and> r < 1"
  then have "cartInputSchema e productId quantity = None"
    by (auto simp: cartInputSchema_def split: jsv.splits)
  with assms(1,2) show "cart_POST e d hdr productId quantity newId = ((400, InvalidInput), d)"
    by (simp add: cart_POST_def)
next
  fix pid q assume "cartInputSchema e productId quantity = Some (pid, q) \<and> findProduct d pid = None"
  with assms(1,2) show "cart_POST e d hdr productId quantity newId = ((404, Error ''Product not found''), d)"
    by (simp add: cart_POST_def)
next
  fix pid q product
  assume a: "cartInputSchema e productId quantity = Some (pid, q) \<and> findProduct d pid = Some product"
  show "case find (\<lambda>c. c_userId c = u_id user \<and> c_productId c = pid) (cartItems d) of
           None \<Rightarrow>
             (if q \<le> p_stock product
              then cart_POST e d hdr productId quantity newId =
                     ((201, CartMessage ''Item added to cart''
                              \<lparr>c_id = newId, c_userId = u_id user, c_productId = pid, c_quantity = q\<rparr>),
                      d\<lparr>cartItems := cartItems d @
                          [\<lparr>c_id = newId, c_userId = u_id user, c_productId = pid, c_quantity = q\<rparr>]\<rparr>)
              else cart_POST e d hdr productId quantity newId =
                     ((400, StockError ''Not enough stock available'' (p_stock product)), d))
         | Some existing \<Rightarrow>
             (if c_quantity existing + q \<le> p_stock product
              then cart_POST e d hdr productId quantity newId =
                     ((200, CartMessage ''Cart item updated''
                              (existing\<lparr>c_quantity := c_quantity existing + q\<rparr>)),
                      d\<lparr>cartItems := map (\<lambda>c. if c_id c = c_id existing
                                                then c\<lparr>c_quantity := c_quantity existing + q\<rparr>
                                                else c) (cartItems d)\<rparr>)
              else cart_POST e d hdr productId quantity newId =
                     ((400, StockError ''Not enough stock available'' (p_stock product)), d)
                 \<or> cart_POST e d hdr productId quantity newId =
                     ((400, ExceedsError ''Cannot add this quantity. It exceeds available stock.''
                              (c_quantity existing) (p_stock product)), d))"
  proof (cases "find (\<lambda>c. c_userId c = u_id user \<and> c_productId c = pid) (cartItems d)")
    case None
    with assms(1,2,4) a show ?thesis
      by (simp add: cart_POST_def Let_def)
  next
    case (Some existing)
    from find_SomeD [OF Some] have "existing \<in> set (cartItems d)" by simp
    with assms(3) have "1 \<le> c_quantity existing" by blast
    with assms(1,2) a Some show ?thesis
      by (auto simp: cart_POST_def Let_def)
  qed
qed

theorem cart_add_item_witness:
  "cart_POST demo_env shop (Some ''Bearer tokA'') (JStr mouseId) (JNum 2) ''ci-new'' =
     ((201, CartMessage ''Item added to cart''
              \<lparr>c_id = ''ci-new'', c_userId = ''user-a'', c_productId = mouseId, c_quantity = 2\<rparr>),
      shop\<lparr>cartItems := cartItems shop @
             [\<lparr>c_id = ''ci-new'', c_userId = ''user-a'', c_productId = mouseId, c_quantity = 2\<rparr>]\<rparr>)
   \<and> cart_POST demo_env shop (Some ''Bearer tokA'') (JStr laptopId) (JNum 1) ''ci-new'' =
     ((400, ExceedsError ''Cannot add this quantity. It exceeds available stock.'' 1 1), shop)"
proof -
  have 1: "getCurrentUser demo_env shop (Some ''Bearer tokA'') = Some alice"
    by code_simp
  have 2: "u_role alice = CUSTOMER" by code_simp
  have 3: "\<forall>c \<in> set (cartItems shop). 1 \<le> c_quantity c" by code_simp
  have 4: "find (\<lambda>c. c_id c = ''ci-new'') (cartItems shop) = None" by code_simp
  have m: "cartInputSchema demo_env (JStr mouseId) (JNum 2) = Some (mouseId, 2)
           \<and> findProduct shop mouseId = Some mouse"
    by code_simp
  have m2: "find (\<lambda>c. c_userId c = u_id alice \<and> c_productId c = mouseId) (cartItems shop) = None"
    by code_simp
  have l: "cartInputSchema demo_env (JStr laptopId) (JNum 1) = Some (laptopId, 1)
           \<and> findProduct shop laptopId = Some laptop"
    by code_simp
  have l2: "find (\<lambda>c. c_userId c = u_id alice \<and> c_productId c = laptopId) (cartItems shop)
              = Some \<lparr>c_id = ''ci-a'', c_userId = ''user-a'', c_productId = laptopId, c_quantity = 1\<rparr>"
    by code_simp
  have l3: "cart_POST demo_env shop (Some ''Bearer tokA'') (JStr laptopId) (JNum 1) ''ci-new''
              \<noteq> ((400, StockError ''Not enough stock available'' (p_stock laptop)), shop)"
    by code_simp
  from cart_add_item [OF 1 2 3 4, of "JNum 2" "JStr mouseId"] m m2
  have a: "cart_POST demo_env shop (Some ''Bearer tokA'') (JStr mouseId) (JNum 2) ''ci-new'' =
     ((201, CartMessage ''Item added to cart''
              \<lparr>c_id = ''ci-new'', c_userId = ''user-a'', c_productId = mouseId, c_quantity = 2\<rparr>),
      shop\<lparr>cartItems := cartItems shop @
             [\<lparr>c_id = ''ci-new'', c_userId = ''user-a'', c_productId = mouseId, c_quantity = 2\<rparr>]\<rparr>)"
    by (simp add: alice_def mouse_def)
  from cart_add_item [OF 1 2 3 4, of "JNum 1" "JStr laptopId"] l l2 l3
  have b: "cart_POST demo_env shop (Some ''Bearer tokA'') (JStr laptopId) (JNum 1) ''ci-new'' =
     ((400, ExceedsError ''Cannot add this quantity. It exceeds available stock.'' 1 1), shop)"
    by (simp add: alice_def laptop_def)
  from a b show ?thesis by simp
qed

text \<open>
  C5. The ownership test of the cart item routes compares the row's owner with the
  \<open>userId\<close> the request carries, not with the authenticated caller: Alice, signed in
  with her own token, names Bob as \<open>userId\<close> and changes, then removes, Bob's line.
\<close>

theorem cart_item_of_another_user:
  "getCurrentUser demo_env shop4 (Some ''Bearer tokA'') = Some alice
   \<and> find (\<lambda>c. c_id c = ''ci-b'') (cartItems shop4)
       = Some \<lparr>c_id = ''ci-b'', c_userId = ''user-b'', c_productId = laptopId, c_quantity = 1\<rparr>
   \<and> cart_PUT demo_env shop4 (Some ''Bearer tokA'') ''ci-b'' (JNum 5) (JStr ''user-b'')
       = ((200, CartItemBody \<lparr>c_id = ''ci-b'', c_userId = ''user-b'', c_productId = laptopId,
                               c_quantity = 5\<rparr> ''Laptop'' 10),
          shop4\<lparr>cartItems :=
            [\<lparr>c_id = ''ci-a'', c_userId = ''user-a'', c_productId = laptopId, c_quantity = 1\<rparr>,
             \<lparr>c_id = ''ci-b'', c_userId = ''user-b'', c_productId = laptopId, c_quantity = 5\<rparr>]\<rparr>)
   \<and> cart_DELETE demo_env shop4 (Some ''Bearer tokA'') ''ci-b'' (Some ''user-b'')
       = ((200, Message ''Cart item removed successfully''),
          shop4\<lparr>cartItems :=
            [\<lparr>c_id = ''ci-a'', c_userId = ''user-a'', c_productId = laptopId, c_quantity = 1\<rparr>]\<rparr>)"
  by code_simp

section \<open>Two checkouts in a row\<close>

text \<open>
  C4, as stated, fails: with one laptop in stock and one in each of two carts, Alice's
  checkout succeeds and Bob's checkout after it succeeds too; the stock is still 1.
\<close>

theorem checkout_oversell_counterexample:
  "p_stock laptop = 1
   \<and> checkout_POST demo_env shop (Some ''Bearer tokA'') ''order-1'' (Some ''https://pay.example/1'')
       = ((200, CheckoutBody ''order-1'' ''https://pay.example/1'' 10),
          shop\<lparr>orders := [\<lparr>o_id = ''order-1'', o_userId = ''user-a'', o_totalAmount = 10,
                             o_paymentStatus = PENDING, o_paymentMethod = ''XENDIT''\<rparr>],
                orderItems := [\<lparr>oi_orderId = ''order-1'', oi_productId = laptopId, oi_price = 10,
                                 oi_quantity = 1\<rparr>],
                cartItems := [\<lparr>c_id = ''ci-b'', c_userId = ''user-b'', c_productId = laptopId,
                                c_quantity = 1\<rparr>]\<rparr>)
   \<and> checkout_POST demo_env
        (shop\<lparr>orders := [\<lparr>o_id = ''order-1'', o_userId = ''user-a'', o_totalAmount = 10,
                             o_paymentStatus = PENDING, o_paymentMethod = ''XENDIT''\<rparr>],
                orderItems := [\<lparr>oi_orderId = ''order-1'', oi_productId = laptopId, oi_price = 10,
                                 oi_quantity = 1\<rparr>],
                cartItems := [\<lparr>c_id = ''ci-b'', c_userId = ''user-b'', c_productId = laptopId,
                                c_quantity = 1\<rparr>]\<rparr>)
        (Some ''Bearer tokB'') ''order-2'' (Some ''https://pay.example/2'')
       = ((200, CheckoutBody ''order-2'' ''https://pay.example/2'' 10),
          shop\<lparr>orders := [\<lparr>o_id = ''order-1'', o_userId = ''user-a'', o_totalAmount = 10,
                             o_paymentStatus = PENDING, o_paymentMethod = ''XENDIT''\<rparr>,
                            \<lparr>o_id = ''order-2'', o_userId = ''user-b'', o_totalAmount = 10,
                             o_paymentStatus = PENDING, o_paymentMethod = ''XENDIT''\<rparr>],
                orderItems := [\<lparr>oi_orderId = ''order-1'', oi_productId = laptopId, oi_price = 10,
                                 oi_quantity = 1\<rparr>,
                               \<lparr>oi_orderId = ''order-2'', oi_productId = laptopId, oi_price = 10,
                                 oi_quantity = 1\<rparr>],
                cartItems := []\<rparr>)"
  by code_simp

lemma auth_same_tables:
  "users d' = users d \<Longrightarrow> invalidTokens d' = invalidTokens d \<Longrightarrow> auth e d' hdr = auth e d hdr"
  by (simp add: auth_def cong: option.case_cong if_cong)

lemma checkout_POST_ok:
  assumes "getCurrentUser e d hdr = Some user" and "u_role user = CUSTOMER"
    and "userCart d (u_id user) = Some items" and "items \<noteq> []"
    and "\<forall>(item, product) \<in> set items. c_quantity item \<le> p_stock product"
    and "totalAmount items = Some amount"
    and "find (\<lambda>ord. o_id ord = orderId) (orders d) = None"
  shows "checkout_POST e d hdr orderId (Some url) =
           ((200, CheckoutBody orderId url amount),
            d\<lparr>orders := orders d @
                 [\<lparr>o_id = orderId, o_userId = u_id user, o_totalAmount = amount,
                   o_paymentStatus = PENDING, o_paymentMethod = ''XENDIT''\<rparr>],
              orderItems := orderItems d @ newOrderItems orderId items,
              cartItems := filter (\<lambda>c. c_userId c \<noteq> u_id user) (cartItems d)\<rparr>)"
proof -
  from assms(5) have "find (\<lambda>(item, product). p_stock product < c_quantity item) items = None"
    by (auto simp: find_None_iff)
  with assms(1-4,6,7) show ?thesis
    by (simp add: checkout_POST_def Let_def)
qed

text \<open>
  C4, amended. Checkout tests each cart line against the current stock and never
  decrements stock. So for two different authenticated customers whose carts load, are
  not empty, have every line within the current stock and have finite totals, with new
  and different order keys and a payment gateway that returns an invoice both times:
  the two checkouts, one after the other, both succeed, whatever the two carts ask for
  together, and the products are left as they were.
\<close>

theorem checkout_sequential_both_succeed:
  assumes "getCurrentUser e d hdrA = Some userA" and "u_role userA = CUSTOMER"
    and "userCart d (u_id userA) = Some itemsA" and "itemsA \<noteq> []"
    and "\<forall>(item, product) \<in> set itemsA. c_quantity item \<le> p_stock product"
    and "totalAmount itemsA = Some amountA"
    and "getCurrentUser e d hdrB = Some userB" and "u_role userB = CUSTOMER"
    and "userCart d (u_id userB) = Some itemsB" and "itemsB \<noteq> []"
    and "\<forall>(item, product) \<in> set itemsB. c_quantity item \<le> p_stock product"
    and "totalAmount itemsB = Some amountB"
    and "u_id userA \<noteq> u_id userB"
    and "find (\<lambda>ord. o_id ord = orderA) (orders d) = None"
    and "find (\<lambda>ord. o_id ord = orderB) (orders d) = None"
    and "orderA \<noteq> orderB"
  shows "\<exists>dA dB.
           checkout_POST e d hdrA orderA (Some urlA) =
             ((200, CheckoutBody orderA urlA amountA), dA)
         \<and> checkout_POST e dA hdrB orderB (Some urlB) =
             ((200, CheckoutBody orderB urlB amountB), dB)
         \<and> products dB = products d
         \<and> orderItems dB = orderItems d @ newOrderItems orderA itemsA @ newOrderItems orderB itemsB"
proof -
  let ?dA = "d\<lparr>orders := orders d @
                 [\<lparr>o_id = orderA, o_userId = u_id userA, o_totalAmount = amountA,
                   o_paymentStatus = PENDING, o_paymentMethod = ''XENDIT''\<rparr>],
              orderItems := orderItems d @ newOrderItems orderA itemsA,
              cartItems := filter (\<lambda>c. c_userId c \<noteq> u_id userA) (cartItems d)\<rparr>"
  have A: "checkout_POST e d hdrA orderA (Some urlA) =
             ((200, CheckoutBody orderA urlA amountA), ?dA)"
    using assms(1-6,14) by (rule checkout_POST_ok)
  have "auth e ?dA hdrB = auth e d hdrB"
    by (rule auth_same_tables) simp_all
  with assms(7) have 1: "getCurrentUser e ?dA hdrB = Some userB"
    by (simp add: getCurrentUser_def)
  have "filter (\<lambda>c. c_userId c = u_id userB) (filter (\<lambda>c. c_userId c \<noteq> u_id userA) (cartItems d))
          = filter (\<lambda>c. c_userId c = u_id userB) (cartItems d)"
    using assms(13) by (auto intro: filter_cong)
  then have 3: "userCart ?dA (u_id userB) = Some itemsB"
    using assms(9) by (simp add: userCart_def)
  have 6: "find (\<lambda>ord. o_id ord = orderB) (orders ?dA) = None"
    using assms(15,16) by (auto simp: find_None_iff)
  from checkout_POST_ok [OF 1 assms(8) 3 assms(10,11,12) 6, of urlB] A
  show ?thesis by simp
qed

theorem checkout_sequential_both_succeed_witness:
  "\<exists>dA dB.
      checkout_POST demo_env shop (Some ''Bearer tokA'') ''order-1'' (Some ''https://pay.example/1'')
        = ((200, CheckoutBody ''order-1'' ''https://pay.example/1'' 10), dA)
    \<and> checkout_POST demo_env dA (Some ''Bearer tokB'') ''order-2'' (Some ''https://pay.example/2'')
        = ((200, CheckoutBody ''order-2'' ''https://pay.example/2'' 10), dB)
    \<and> products dB = [laptop, mouse]"
proof -
  let ?a = "[(\<lparr>c_id = ''ci-a'', c_userId = ''user-a'', c_productId = laptopId, c_quantity = 1\<rparr>, laptop)]"
  let ?b = "[(\<lparr>c_id = ''ci-b'', c_userId = ''user-b'', c_productId = laptopId, c_quantity = 1\<rparr>, laptop)]"
  have 1: "getCurrentUser demo_env shop (Some ''Bearer tokA'') = Some alice" by code_simp
  have 2: "u_role alice = CUSTOMER" by code_simp
  have 3: "userCart shop (u_id alice) = Some ?a" by code_simp
  have 4: "?a \<noteq> []" by simp
  have 5: "\<forall>(item, product) \<in> set ?a. c_quantity item \<le> p_stock product" by (simp add: laptop_def)
  have 6: "totalAmount ?a = Some 10" by code_simp
  have 7: "getCurrentUser demo_env shop (Some ''Bearer tokB'') = Some bob" by code_simp
  have 8: "u_role bob = CUSTOMER" by code_simp
  have 9: "userCart shop (u_id bob) = Some ?b" by code_simp
  have 10: "?b \<noteq> []" by simp
  have 11: "\<forall>(item, product) \<in> set ?b. c_quantity item \<le> p_stock product" by (simp add: laptop_def)
  have 12: "totalAmount ?b = Some 10" by code_simp
  have 13: "u_id alice \<noteq> u_id bob" by code_simp
  have 14: "find (\<lambda>ord. o_id ord = ''order-1'') (orders shop) = None" by code_simp
  have 15: "find (\<lambda>ord. o_id ord = ''order-2'') (orders shop) = None" by code_simp
  have 16: "''order-1'' \<noteq> ''order-2''" by simp
  have p: "products shop = [laptop, mouse]" by code_simp
  from checkout_sequential_both_succeed [OF 1 2 3 4 5 6 7 8 9 10 11 12 13 14 15 16,
      of "''https://pay.example/1''" "''https://pay.example/2''"]
  show ?thesis unfolding p by blast
qed

section \<open>Revoked tokens\<close>







section \<open>Products with orders\<close>

lemma delete_refused:
  assumes "oi \<in> set (orderItems d)"
  shows "snd (products_id_DELETE e d hdr (oi_productId oi)) = d"
    and "snd (createProduct_DELETE e d hdr (oi_productId oi)) = d"
    and "snd (products_id_DELETE_form e d hdr (oi_productId oi)) = d"
proof -
  from assms have f: "find (\<lambda>x. oi_productId x = oi_productId oi) (orderItems d) \<noteq> None"
    by (auto simp: find_None_iff)
  from assms have g: "filter (\<lambda>x. oi_productId x = oi_productId oi) (orderItems d) \<noteq> []"
    by (auto simp: filter_empty_conv)
  show "snd (products_id_DELETE e d hdr (oi_productId oi)) = d"
    using f by (auto simp: products_id_DELETE_def split: option.splits)
  show "snd (createProduct_DELETE e d hdr (oi_productId oi)) = d"
    using f by (auto simp: createProduct_DELETE_def split: option.splits)
  show "snd (products_id_DELETE_form e d hdr (oi_productId oi)) = d"
    using g by (auto simp: products_id_DELETE_form_def Let_def split: option.splits)
qed

lemma delete_refused_message:
  assumes "oi \<in> set (orderItems d)" and "findProduct d (oi_productId oi) \<noteq> None"
    and "authAdminOnly e d hdr" and "oi_productId oi \<noteq> []"
  shows "products_id_DELETE e d hdr (oi_productId oi)
            = ((400, Error ''Cannot delete product with existing orders''), d)"
    and "createProduct_DELETE e d hdr (oi_productId oi)
            = ((400, Error ''Cannot delete product with existing orders''), d)"
proof -
  from assms(1) have f: "find (\<lambda>x. oi_productId x = oi_productId oi) (orderItems d) \<noteq> None"
    by (auto simp: find_None_iff)
  from assms(3) obtain u where u: "getCurrentUser e d hdr = Some u"
    by (auto simp: authAdminOnly_def getCurrentUser_def split: option.splits)
  show "products_id_DELETE e d hdr (oi_productId oi)
            = ((400, Error ''Cannot delete product with existing orders''), d)"
    using f u assms(2-4) by (auto simp: products_id_DELETE_def split: option.splits)
  show "createProduct_DELETE e d hdr (oi_productId oi)
            = ((400, Error ''Cannot delete product with existing orders''), d)"
    using f assms(2-4) by (auto simp: createProduct_DELETE_def split: option.splits)
qed

text \<open>
  C9. A product that an order line references is not deleted: each of the three delete
  handlers leaves the database as it was, and for an administrator and an existing
  product the answer is 400 \<open>Cannot delete product with existing orders\<close>. Therefore,
  after any sequence of requests, every order line still points at an existing product.
\<close>

theorem product_with_orders_not_deleted:
  "(\<forall>oi \<in> set (orderItems d).
       snd (products_id_DELETE e d hdr (oi_productId oi)) = d
     \<and> snd (createProduct_DELETE e d hdr (oi_productId oi)) = d
     \<and> snd (products_id_DELETE_form e d hdr (oi_productId oi)) = d
     \<and> (findProduct d (oi_productId oi) \<noteq> None \<and> authAdminOnly e d hdr \<and> oi_productId oi \<noteq> [] \<longrightarrow>
          products_id_DELETE e d hdr (oi_productId oi)
            = ((400, Error ''Cannot delete product with existing orders''), d)
        \<and> createProduct_DELETE e d hdr (oi_productId oi)
            = ((400, Error ''Cannot delete product with existing orders''), d)))
   \<and> (orderItemsRef d \<longrightarrow> orderItemsRef (run e d cs))"
proof (intro conjI ballI impI)
  fix oi assume oi: "oi \<in> set (orderItems d)"
  then show "snd (products_id_DELETE e d hdr (oi_productId oi)) = d"
    and "snd (createProduct_DELETE e d hdr (oi_productId oi)) = d"
    and "snd (products_id_DELETE_form e d hdr (oi_productId oi)) = d"
    by (rule delete_refused)+
  assume a: "findProduct d (oi_productId oi) \<noteq> None \<and> authAdminOnly e d hdr \<and> oi_productId oi \<noteq> []"
  with oi show "products_id_DELETE e d hdr (oi_productId oi)
            = ((400, Error ''Cannot delete product with existing orders''), d)"
    by (simp add: delete_refused_message)
  from oi a show "createProduct_DELETE e d hdr (oi_productId oi)
            = ((400, Error ''Cannot delete product with existing orders''), d)"
    by (simp add: delete_refused_message)
next
  assume "orderItemsRef d"
  then show "orderItemsRef (run e d cs)" by (rule run_ref)
qed

theorem product_with_orders_not_deleted_witness:
  "products_id_DELETE demo_env shop5 (Some ''Bearer tokAdmin'') laptopId
      = ((400, Error ''Cannot delete product with existing orders''), shop5)
   \<and> orderItemsRef shop5
   \<and> orderItemsRef (run demo_env shop5
        [ProductDelete (Some ''Bearer tokAdmin'') laptopId,
         ProductDeleteForm (Some ''Bearer tokAdmin'') mouseId])"
proof -
  let ?oi = "\<lparr>oi_orderId = ''order-1'', oi_productId = laptopId, oi_price = 10, oi_quantity = 1\<rparr>"
  have 1: "?oi \<in> set (orderItems shop5)" by code_simp
  have 2: "findProduct shop5 (oi_productId ?oi) \<noteq> None \<and> authAdminOnly demo_env shop5 (Some ''Bearer tokAdmin'')
            \<and> oi_productId ?oi \<noteq> []"
    by code_simp
  have 3: "orderItemsRef shop5" by code_simp
  have 4: "oi_productId ?oi = laptopId" by simp
  note t = product_with_orders_not_deleted [of shop5 demo_env "Some ''Bearer tokAdmin''"
      "[ProductDelete (Some ''Bearer tokAdmin'') laptopId,
        ProductDeleteForm (Some ''Bearer tokAdmin'') mouseId]"]
  from t 1 2 have "products_id_DELETE demo_env shop5 (Some ''Bearer tokAdmin'') (oi_productId ?oi)
      = ((400, Error ''Cannot delete product with existing orders''), shop5)"
    by blast
  then have a: "products_id_DELETE demo_env shop5 (Some ''Bearer tokAdmin'') laptopId
      = ((400, Error ''Cannot delete product with existing orders''), shop5)"
    unfolding 4 .
  from t 3 have b: "orderItemsRef (run demo_env shop5
        [ProductDelete (Some ''Bearer tokAdmin'') laptopId,
         ProductDeleteForm (Some ''Bearer tokAdmin'') mouseId])"
    by blast
  from a 3 b show ?thesis by (intro conjI)
qed



section \<open>Stock\<close>

text \<open>
  C3. The JSON update hands the whole request body to \<open>prisma.product.update\<close>. A
  negative \<open>stock\<close> at the top of the body is refused, but a body whose \<open>reviews\<close>
  key carries a nested write is answered 200, and the cable it creates has stock -5.
\<close>

theorem nested_write_negative_stock:
  "products_id_PUT demo_env shop (Some ''Bearer tokAdmin'') laptopId (stockOnly (- 5))
     = ((400, Error ''Stock must be a non-negative integer''), shop)
   \<and> fst (products_id_PUT demo_env shop (Some ''Bearer tokAdmin'') laptopId nestedBody)
       = (200, ProductBody laptop)
   \<and> products shop = [laptop, mouse]
   \<and> p_stock laptop = 1 \<and> p_stock mouse = 3
   \<and> products (snd (products_id_PUT demo_env shop (Some ''Bearer tokAdmin'') laptopId nestedBody))
       = [laptop, mouse, cable]
   \<and> p_stock cable = - 5"
  by code_simp

end
